theory Spec2Isabelle
  imports Complex_Main "HOL-Library.AList" "HOL-Library.Multiset"
begin

section \<open>The ManagedCluster reconciler of hmc: data model\<close>

text \<open>
  A shallow embedding of \<^verbatim>\<open>ManagedClusterReconciler\<close> (package controller). The Go
  code mutates one \<^verbatim>\<open>*ManagedCluster\<close> in place and talks to the API server and to
  helper packages; here every function takes the object and returns the updated one,
  the answers of the collaborators are fields of an environment record, and every
  side-effecting call is appended to a log of calls. \<^verbatim>\<open>Reconcile\<close> itself fetches
  the object and hands it to \<^verbatim>\<open>Delete\<close> when its deletion timestamp is set and to
  \<^verbatim>\<open>Update\<close> otherwise; these two are the passes modelled here.
\<close>

subsection \<open>Errors\<close>

text \<open>
  A Go \<^verbatim>\<open>error\<close>. \<open>NotFound\<close> is an API status error for which
  \<^verbatim>\<open>apierrors.IsNotFound\<close> holds, \<open>ResourceNotFound\<close> is
  \<^verbatim>\<open>status.ResourceNotFoundError\<close>, \<open>Failure\<close> is any other error
  (\<^verbatim>\<open>errors.New\<close>, \<^verbatim>\<open>fmt.Errorf\<close> without \<^verbatim>\<open>%w\<close>), \<open>Wrapped p e\<close>
  is \<^verbatim>\<open>fmt.Errorf(p + "%w", e)\<close>, \<open>Joined\<close> is the result of
  \<^verbatim>\<open>errors.Join\<close>, and \<open>Panic\<close> is a run-time panic.
\<close>

datatype error =
    NotFound string
  | ResourceNotFound string
  | Failure string
  | Wrapped string error
  | Joined "error list"
  | Panic string

fun joinLines :: "string list \<Rightarrow> string" where
  "joinLines [] = []"
| "joinLines [s] = s"
| "joinLines (s # t # ss) = s @ [CHR 0x0A] @ joinLines (t # ss)"

fun Error :: "error \<Rightarrow> string" where
  "Error (NotFound m) = m"
| "Error (ResourceNotFound m) = m"
| "Error (Failure m) = m"
| "Error (Wrapped p e) = p @ Error e"
| "Error (Joined es) = joinLines (map Error es)"
| "Error (Panic m) = m"

fun IsNotFound :: "error \<Rightarrow> bool" where
  "IsNotFound (NotFound m) = True"
| "IsNotFound (Wrapped p e) = IsNotFound e"
| "IsNotFound (Joined es) = list_ex IsNotFound es"
| "IsNotFound e = False"

fun IsResourceNotFound :: "error \<Rightarrow> bool" where
  "IsResourceNotFound (ResourceNotFound m) = True"
| "IsResourceNotFound (Wrapped p e) = IsResourceNotFound e"
| "IsResourceNotFound (Joined es) = list_ex IsResourceNotFound es"
| "IsResourceNotFound e = False"

text \<open>\<^verbatim>\<open>errors.Join(a, b)\<close>: nil values are dropped, and the result is nil when
  both are nil.\<close>

fun errors_Join :: "error option \<Rightarrow> error option \<Rightarrow> error option" where
  "errors_Join None None = None"
| "errors_Join (Some a) None = Some (Joined [a])"
| "errors_Join None (Some b) = Some (Joined [b])"
| "errors_Join (Some a) (Some b) = Some (Joined [a, b])"

subsection \<open>Conditions\<close>

datatype ConditionStatus = ConditionTrue | ConditionFalse | ConditionUnknown

text \<open>\<^verbatim>\<open>metav1.Condition\<close> without its time stamp and observed generation, which
  no function of the reconciler reads.\<close>

record Condition =
  Type :: string
  Status :: ConditionStatus
  Reason :: string
  Message :: string

text \<open>Modelled from the spec: the condition types and reasons are constants of the
  package api/v1alpha1, which is not among the sources; the spec names them
  TemplateReady, HelmChartReady, HelmReleaseReady, CredentialReady,
  CredentialsPropagated and Ready, with the reasons Succeeded, Failed and Progressing.\<close>

definition TemplateReadyCondition :: string where
  "TemplateReadyCondition = ''TemplateReady''"

definition HelmChartReadyCondition :: string where
  "HelmChartReadyCondition = ''HelmChartReady''"

definition HelmReleaseReadyCondition :: string where
  "HelmReleaseReadyCondition = ''HelmReleaseReady''"

definition CredentialReadyCondition :: string where
  "CredentialReadyCondition = ''CredentialReady''"

definition CredentialsPropagatedCondition :: string where
  "CredentialsPropagatedCondition = ''CredentialsPropagated''"

definition ReadyCondition :: string where
  "ReadyCondition = ''Ready''"

definition SucceededReason :: string where
  "SucceededReason = ''Succeeded''"

definition FailedReason :: string where
  "FailedReason = ''Failed''"

definition ProgressingReason :: string where
  "ProgressingReason = ''Progressing''"

text \<open>\<^verbatim>\<open>apimeta.FindStatusCondition\<close>: the first condition of the given type.\<close>

fun FindStatusCondition :: "Condition list \<Rightarrow> string \<Rightarrow> Condition option" where
  "FindStatusCondition [] t = None"
| "FindStatusCondition (c # cs) t = (if Type c = t then Some c else FindStatusCondition cs t)"

text \<open>\<^verbatim>\<open>apimeta.SetStatusCondition\<close>: a condition of a new type is appended; otherwise
  the status, reason and message of the first condition of that type are overwritten.\<close>

fun SetStatusCondition :: "Condition list \<Rightarrow> Condition \<Rightarrow> Condition list" where
  "SetStatusCondition [] n = [n]"
| "SetStatusCondition (c # cs) n =
     (if Type c = Type n
      then c\<lparr>Status := Status n, Reason := Reason n, Message := Message n\<rparr> # cs
      else c # SetStatusCondition cs n)"

subsection \<open>Objects\<close>

text \<open>\<^verbatim>\<open>metav1.ObjectMeta\<close>, embedded in every API object; the records below extend
  it as the Go structs embed it. \<open>Spec.X\<close> and \<open>Status.Y\<close> of the Go types are
  the fields \<open>X\<close> and \<open>Y\<close> here.\<close>

record ObjectMeta =
  Name :: string
  Namespace :: string
  Generation :: nat
  Finalizers :: "string list"

text \<open>A JSON document; a number is the rational that its literal denotes.\<close>

datatype json =
    JNull
  | JBool bool
  | JNumber rat
  | JString string
  | JArray "json list"
  | JObject "(string \<times> json) list"

text \<open>\<^verbatim>\<open>apiextensionsv1.JSON\<close>: raw bytes, which are either the text of a JSON
  document or malformed (with the decoder's message).\<close>

datatype RawJSON = Malformed string | Doc json

record ManagedCluster = ObjectMeta +
  Template :: string
  Credential :: string
  Config :: "RawJSON option"
  DryRun :: bool
  ObservedGeneration :: nat
  Conditions :: "Condition list"
  KubernetesVersion :: string
  AvailableUpgrades :: "string list"

record CrossNamespaceSourceReference =
  RefNamespace :: string
  RefName :: string

record ClusterTemplate = ObjectMeta +
  Valid :: bool
  TemplateKubernetesVersion :: string
  ChartRef :: "CrossNamespaceSourceReference option"
  Providers :: "string list"

text \<open>The identity reference of a credential is kept as the JSON value that
  \<^verbatim>\<open>json.Marshal\<close> writes for the \<^verbatim>\<open>*corev1.ObjectReference\<close> (\<open>JNull\<close> for nil).\<close>

record Credential = ObjectMeta +
  State :: string
  IdentityRef :: json

text \<open>Modelled from the spec: the state of a credential that is ready, a constant of
  api/v1alpha1, which is not among the sources; the spec writes it Ready.\<close>

definition CredentialReady :: string where
  "CredentialReady = ''Ready''"

record AvailableUpgrade =
  UpgradeName :: string

record SupportedTemplate =
  SupportedName :: string
  SupportedUpgrades :: "AvailableUpgrade list"

record ClusterTemplateChain = ObjectMeta +
  SupportedTemplates :: "SupportedTemplate list"

record HelmRelease = ObjectMeta +
  ReleaseConditions :: "Condition list"

record GroupVersionKind =
  Group :: string
  Version :: string
  Kind :: string

text \<open>\<^verbatim>\<open>ctrl.Result\<close>; the delay is in seconds, 0 for the empty result.\<close>

record Result =
  RequeueAfter :: nat

definition DefaultRequeueInterval :: nat where
  "DefaultRequeueInterval = 10"

definition NoResult :: Result where
  "NoResult = \<lparr>RequeueAfter = 0\<rparr>"

text \<open>Modelled from the spec: the finalizer of the object itself and the blocking
  finalizer that a provider puts on its workload object are two string constants of
  api/v1alpha1, which is not among the sources. The functions below only compare
  finalizers with them.\<close>

definition ManagedClusterFinalizer :: string where
  "ManagedClusterFinalizer = ''hmc.mirantis.com/managed-cluster''"

definition BlockingFinalizer :: string where
  "BlockingFinalizer = ''hmc.mirantis.com/cleanup''"

text \<open>\<^verbatim>\<open>controllerutil.AddFinalizer\<close> and \<^verbatim>\<open>RemoveFinalizer\<close> return whether the
  list of finalizers changed, and the object.\<close>

definition AddFinalizer :: "'a ObjectMeta_scheme \<Rightarrow> string \<Rightarrow> bool \<times> 'a ObjectMeta_scheme" where
  "AddFinalizer ob f =
     (if f \<in> set (Finalizers ob) then (False, ob)
      else (True, ob\<lparr>Finalizers := Finalizers ob @ [f]\<rparr>))"

definition RemoveFinalizer :: "'a ObjectMeta_scheme \<Rightarrow> string \<Rightarrow> bool \<times> 'a ObjectMeta_scheme" where
  "RemoveFinalizer ob f =
     (let fs = filter (\<lambda>g. g \<noteq> f) (Finalizers ob)
      in (length fs \<noteq> length (Finalizers ob), ob\<lparr>Finalizers := fs\<rparr>))"

subsection \<open>The collaborators and the log of calls\<close>

text \<open>
  The answers of the API server and of the helper packages during one reconcile pass.
  A \<^verbatim>\<open>Get\<close> is keyed by namespace and name, a \<^verbatim>\<open>List\<close> by kind, namespace and
  the value of the label or field it selects on (the label is the chart name for a
  provider's cluster object and the cluster name for a Machine); the same read gives the
  same answer within a pass.
  \<open>InitConditions\<close> (the conditions it leaves on an object that has none) and
  \<open>HelmValues\<close> (whether decoding the configuration fails) are methods of
  \<^verbatim>\<open>hmc.ManagedCluster\<close> (api/v1alpha1), and the packages helm, sveltos,
  credspropagation and status are not among the sources either: what they return is a
  parameter. So are two answers of libraries: \<open>IsReady\<close> is
  \<^verbatim>\<open>fluxconditions.IsReady\<close> on the release, and \<open>Float64 q\<close> is what becomes of the
  JSON number \<open>q\<close> when \<^verbatim>\<open>encoding/json\<close> reads it into a \<^verbatim>\<open>float64\<close> and
  writes it back: the number written, or the decoder's error for a number beyond the
  range of a \<^verbatim>\<open>float64\<close>.
\<close>

record Env =
  InitConditions :: "ManagedCluster \<Rightarrow> Condition list"
  HelmValues :: "error option"
  Get_ClusterTemplate :: "string \<Rightarrow> string \<Rightarrow> error + ClusterTemplate"
  Get_HelmChart :: "string \<Rightarrow> string \<Rightarrow> error option"
  Get_Credential :: "string \<Rightarrow> string \<Rightarrow> error + Credential"
  Get_Secret :: "string \<Rightarrow> string \<Rightarrow> error option"
  Get_HelmRelease :: "string \<Rightarrow> string \<Rightarrow> error + HelmRelease"
  List_ClusterTemplateChain :: "string \<Rightarrow> string \<Rightarrow> error + ClusterTemplateChain list"
  List_Objects :: "GroupVersionKind \<Rightarrow> string \<Rightarrow> string \<Rightarrow> error + ObjectMeta list"
  Client_Update :: "error option"
  Client_Patch :: "error option"
  Status_Update :: "error option"
  DownloadChartFromArtifact :: "error option"
  Action_Init :: "error option"
  Install_Run :: "error option"
  ReconcileHelmRelease :: "error + HelmRelease"
  DeleteHelmRelease :: "error option"
  GetResourceConditions :: "error + Condition list"
  PropagateAzureSecrets :: "error option"
  PropagateVSphereSecrets :: "error option"
  helmChartOpts :: "error option"
  ReconcileProfile :: "error option"
  DeleteProfile :: "error option"
  IsReady :: "HelmRelease \<Rightarrow> bool"
  Float64 :: "rat \<Rightarrow> error + rat"

text \<open>The calls that write, or that read a provider's workload objects, in the order
  in which a pass makes them.\<close>

datatype Call =
    CallUpdate ManagedCluster
  | CallStatusUpdate ManagedCluster
  | CallReconcileHelmRelease string string RawJSON "CrossNamespaceSourceReference option"
  | CallDeleteHelmRelease string string
  | CallReconcileProfile string string
  | CallDeleteProfile string string
  | CallList GroupVersionKind string string
  | CallPatch ObjectMeta
  | CallPropagateAzureSecrets
  | CallPropagateVSphereSecrets

text \<open>What a pass leaves behind: the object as mutated in memory, the calls made, and
  the pair \<^verbatim>\<open>(ctrl.Result, error)\<close> it returns.\<close>

record Out =
  obj :: ManagedCluster
  calls :: "Call list"
  result :: Result
  err :: "error option"

definition setCondition :: "ManagedCluster \<Rightarrow> Condition \<Rightarrow> ManagedCluster" where
  "setCondition mc c = mc\<lparr>Conditions := SetStatusCondition (Conditions mc) c\<rparr>"

definition key :: "string \<Rightarrow> string \<Rightarrow> string" where
  "key ns n = ns @ ''/'' @ n"

section \<open>The status-persist step\<close>

subsection \<open>setAvailableUpgrades\<close>

text \<open>
  The Go map \<^verbatim>\<open>availableUpgradesMap\<close> is an association list with one entry per
  key. Go ranges over a map in an unspecified order; the list built here has the order
  of first insertion, and the theorems speak of the set of its elements only.
\<close>

fun addUpgrades ::
  "(string \<times> AvailableUpgrade) list \<Rightarrow> AvailableUpgrade list \<Rightarrow> (string \<times> AvailableUpgrade) list" where
  "addUpgrades m [] = m"
| "addUpgrades m (availableUpgrade # rest) =
     addUpgrades (AList.update (UpgradeName availableUpgrade) availableUpgrade m) rest"

fun addSupported ::
  "string \<Rightarrow> (string \<times> AvailableUpgrade) list \<Rightarrow> SupportedTemplate list \<Rightarrow> (string \<times> AvailableUpgrade) list" where
  "addSupported n m [] = m"
| "addSupported n m (supportedTemplate # rest) =
     addSupported n
       (if SupportedName supportedTemplate = n
        then addUpgrades m (SupportedUpgrades supportedTemplate) else m) rest"

fun addChains ::
  "string \<Rightarrow> (string \<times> AvailableUpgrade) list \<Rightarrow> ClusterTemplateChain list \<Rightarrow> (string \<times> AvailableUpgrade) list" where
  "addChains n m [] = m"
| "addChains n m (chain # rest) = addChains n (addSupported n m (SupportedTemplates chain)) rest"

definition availableUpgrades :: "string \<Rightarrow> ClusterTemplateChain list \<Rightarrow> string list" where
  "availableUpgrades n chainItems = map (\<lambda>(k, availableUpgrade). UpgradeName availableUpgrade) (addChains n [] chainItems)"

definition setAvailableUpgrades ::
  "Env \<Rightarrow> ManagedCluster \<Rightarrow> ClusterTemplate option \<Rightarrow> error + ManagedCluster" where
  "setAvailableUpgrades r managedCluster template =
     (case template of
        None \<Rightarrow> Inr managedCluster
      | Some t \<Rightarrow>
          (case List_ClusterTemplateChain r (Namespace t) (Name t) of
             Inl e \<Rightarrow> Inl e
           | Inr chainItems \<Rightarrow>
               Inr (managedCluster\<lparr>AvailableUpgrades := availableUpgrades (Name t) chainItems\<rparr>)))"

subsection \<open>updateStatus\<close>

text \<open>The loop over the conditions, with the strings \<^verbatim>\<open>warnings\<close> and \<^verbatim>\<open>errs\<close>.\<close>

fun statusLoop :: "Condition list \<Rightarrow> string \<Rightarrow> string \<Rightarrow> string \<times> string" where
  "statusLoop [] warnings errs = (warnings, errs)"
| "statusLoop (condition # rest) warnings errs =
     (if Type condition = ReadyCondition then statusLoop rest warnings errs
      else statusLoop rest
        (if Status condition = ConditionUnknown then warnings @ Message condition @ ''. '' else warnings)
        (if Status condition = ConditionFalse then errs @ Message condition @ ''. '' else errs))"

definition readyCondition :: "Condition list \<Rightarrow> Condition" where
  "readyCondition conditions =
     (let (warnings, errs) = statusLoop conditions [] [];
          condition = \<lparr>Type = ReadyCondition, Status = ConditionTrue,
                       Reason = SucceededReason, Message = ''ManagedCluster is ready''\<rparr>;
          condition = (if warnings \<noteq> [] then
                         condition\<lparr>Status := ConditionUnknown, Reason := ProgressingReason,
                                   Message := warnings\<rparr>
                       else condition);
          condition = (if errs \<noteq> [] then
                         condition\<lparr>Status := ConditionFalse, Reason := FailedReason,
                                   Message := errs\<rparr>
                       else condition)
      in condition)"

definition updateStatus ::
  "Env \<Rightarrow> ManagedCluster \<Rightarrow> ClusterTemplate option \<Rightarrow> ManagedCluster \<times> Call list \<times> error option" where
  "updateStatus r managedCluster template =
     (let mc1 = managedCluster\<lparr>ObservedGeneration := Generation managedCluster\<rparr>;
          mc2 = setCondition mc1 (readyCondition (Conditions mc1))
      in case setAvailableUpgrades r mc2 template of
           Inl e \<Rightarrow> (mc2, [], Some (Failure ''failed to set available upgrades''))
         | Inr mc3 \<Rightarrow>
             (case Status_Update r of
                Some e \<Rightarrow>
                  (mc3, [CallStatusUpdate mc3],
                   Some (Wrapped (''failed to update status for managedCluster ''
                                  @ key (Namespace mc3) (Name mc3) @ '': '') e))
              | None \<Rightarrow> (mc3, [CallStatusUpdate mc3], None)))"


section \<open>Credential propagation\<close>

text \<open>\<^verbatim>\<open>strings.Index\<close>: the position of the first occurrence of \<open>sub\<close>, \<open>None\<close>
  for Go's -1.\<close>

fun strings_Index :: "string \<Rightarrow> string \<Rightarrow> nat option" where
  "strings_Index [] sub = (if sub = [] then Some 0 else None)"
| "strings_Index (c # s) sub =
     (if take (length sub) (c # s) = sub then Some 0
      else map_option Suc (strings_Index s sub))"

definition infraPrefix :: string where
  "infraPrefix = ''infrastructure-''"

fun infraLoop :: "string list \<Rightarrow> string list \<Rightarrow> string list" where
  "infraLoop ips [] = ips"
| "infraLoop ips (v # rest) =
     (case strings_Index v infraPrefix of
        Some idx \<Rightarrow> infraLoop (ips @ [drop (idx + length infraPrefix) v]) rest
      | None \<Rightarrow> infraLoop ips rest)"

definition getInfraProvidersNames :: "Env \<Rightarrow> string \<Rightarrow> string \<Rightarrow> error + string list" where
  "getInfraProvidersNames r templateNamespace templateName =
     (case Get_ClusterTemplate r templateNamespace templateName of
        Inl e \<Rightarrow> Inl e
      | Inr template \<Rightarrow> Inr (infraLoop [] (Providers template)))"

text \<open>The loop of \<^verbatim>\<open>reconcileCredentialPropagation\<close> over the providers, with its
  \<^verbatim>\<open>switch\<close>.\<close>

fun propagationLoop ::
  "Env \<Rightarrow> ManagedCluster \<Rightarrow> string list \<Rightarrow> ManagedCluster \<times> Call list \<times> error option" where
  "propagationLoop r managedCluster [] = (managedCluster, [], None)"
| "propagationLoop r managedCluster (provider # rest) =
     (if provider = ''aws'' then propagationLoop r managedCluster rest
      else if provider = ''azure'' then
        (case PropagateAzureSecrets r of
           Some e \<Rightarrow>
             (let errMsg = ''failed to create Azure CCM credentials: '' @ Error e
              in (setCondition managedCluster
                    \<lparr>Type = CredentialsPropagatedCondition, Status = ConditionFalse,
                     Reason = FailedReason, Message = errMsg\<rparr>,
                  [CallPropagateAzureSecrets], Some (Failure errMsg)))
         | None \<Rightarrow>
             (case propagationLoop r
                     (setCondition managedCluster
                        \<lparr>Type = CredentialsPropagatedCondition, Status = ConditionTrue,
                         Reason = SucceededReason, Message = ''Azure CCM credentials created''\<rparr>)
                     rest of
                (mc, cs, e) \<Rightarrow> (mc, CallPropagateAzureSecrets # cs, e)))
      else if provider = ''vsphere'' then
        (case PropagateVSphereSecrets r of
           Some e \<Rightarrow>
             (let errMsg = ''failed to create vSphere CCM credentials: '' @ Error e
              in (setCondition managedCluster
                    \<lparr>Type = CredentialsPropagatedCondition, Status = ConditionFalse,
                     Reason = FailedReason, Message = errMsg\<rparr>,
                  [CallPropagateVSphereSecrets], Some (Failure errMsg)))
         | None \<Rightarrow>
             (case propagationLoop r
                     (setCondition managedCluster
                        \<lparr>Type = CredentialsPropagatedCondition, Status = ConditionTrue,
                         Reason = SucceededReason, Message = ''vSphere CCM credentials created''\<rparr>)
                     rest of
                (mc, cs, e) \<Rightarrow> (mc, CallPropagateVSphereSecrets # cs, e)))
      else propagationLoop r
             (setCondition managedCluster
                \<lparr>Type = CredentialsPropagatedCondition, Status = ConditionFalse,
                 Reason = FailedReason,
                 Message = ''unsupported infrastructure provider '' @ provider\<rparr>)
             rest)"

definition reconcileCredentialPropagation ::
  "Env \<Rightarrow> ManagedCluster \<Rightarrow> ManagedCluster \<times> Call list \<times> error option" where
  "reconcileCredentialPropagation r managedCluster =
     (case getInfraProvidersNames r (Namespace managedCluster) (Template managedCluster) of
        Inl e \<Rightarrow>
          (managedCluster, [],
           Some (Wrapped (''failed to get cluster providers for cluster ''
                          @ key (Namespace managedCluster) (Name managedCluster) @ '': '') e))
      | Inr providers \<Rightarrow>
          (case Get_Secret r (Namespace managedCluster) (Name managedCluster @ ''-kubeconfig'') of
             Some e \<Rightarrow>
               (managedCluster, [],
                Some (Wrapped (''failed to get kubeconfig secret for cluster ''
                               @ key (Namespace managedCluster) (Name managedCluster) @ '': '') e))
           | None \<Rightarrow> propagationLoop r managedCluster providers))"

section \<open>The update path\<close>

subsection \<open>setIdentityHelmValues\<close>

text \<open>
  \<^verbatim>\<open>json.Unmarshal\<close> into a \<^verbatim>\<open>map[string]any\<close>. Every value is decoded into an
  \<^verbatim>\<open>any\<close>: a number becomes a \<^verbatim>\<open>float64\<close> (\<open>float64\<close> below is that
  conversion, seen from the document that is written back), an array a slice, an object
  a map, in which the last of two members with one key wins. A number beyond the range
  of a \<^verbatim>\<open>float64\<close> makes \<^verbatim>\<open>Unmarshal\<close> return an error; the first such number of
  the text is the one reported.
\<close>

fun decodeValue :: "(rat \<Rightarrow> error + rat) \<Rightarrow> json \<Rightarrow> error + json"
  and decodeArray :: "(rat \<Rightarrow> error + rat) \<Rightarrow> json list \<Rightarrow> error + json list"
  and decodeObject ::
    "(rat \<Rightarrow> error + rat) \<Rightarrow> (string \<times> json) list \<Rightarrow> (string \<times> json) list \<Rightarrow>
     error + (string \<times> json) list" where
  "decodeValue float64 JNull = Inr JNull"
| "decodeValue float64 (JBool b) = Inr (JBool b)"
| "decodeValue float64 (JNumber q) =
     (case float64 q of Inl e \<Rightarrow> Inl e | Inr x \<Rightarrow> Inr (JNumber x))"
| "decodeValue float64 (JString s) = Inr (JString s)"
| "decodeValue float64 (JArray elems) =
     (case decodeArray float64 elems of Inl e \<Rightarrow> Inl e | Inr vs \<Rightarrow> Inr (JArray vs))"
| "decodeValue float64 (JObject members) =
     (case decodeObject float64 [] members of Inl e \<Rightarrow> Inl e | Inr m \<Rightarrow> Inr (JObject m))"
| "decodeArray float64 [] = Inr []"
| "decodeArray float64 (x # elems) =
     (case decodeValue float64 x of
        Inl e \<Rightarrow> Inl e
      | Inr v \<Rightarrow>
          (case decodeArray float64 elems of Inl e \<Rightarrow> Inl e | Inr vs \<Rightarrow> Inr (v # vs)))"
| "decodeObject float64 m [] = Inr m"
| "decodeObject float64 m ((k, x) # members) =
     (case decodeValue float64 x of
        Inl e \<Rightarrow> Inl e
      | Inr v \<Rightarrow> decodeObject float64 (AList.update k v m) members)"

text \<open>
  At the top level an object gives the map of its decoded members, \<^verbatim>\<open>null\<close> leaves
  the map nil (\<open>None\<close>), and any other document, like malformed text, is an error.
  \<^verbatim>\<open>json.Marshal\<close> of the map gives an object (the order of its members is not
  modelled).
\<close>

fun json_Unmarshal ::
  "(rat \<Rightarrow> error + rat) \<Rightarrow> RawJSON \<Rightarrow> error + (string \<times> json) list option" where
  "json_Unmarshal float64 (Malformed m) = Inl (Failure m)"
| "json_Unmarshal float64 (Doc JNull) = Inr None"
| "json_Unmarshal float64 (Doc (JObject members)) =
     (case decodeObject float64 [] members of Inl e \<Rightarrow> Inl e | Inr m \<Rightarrow> Inr (Some m))"
| "json_Unmarshal float64 (Doc (JBool b)) =
     Inl (Failure ''json: cannot unmarshal bool into Go value of type map[string]interface {}'')"
| "json_Unmarshal float64 (Doc (JNumber q)) =
     Inl (Failure ''json: cannot unmarshal number into Go value of type map[string]interface {}'')"
| "json_Unmarshal float64 (Doc (JString t)) =
     Inl (Failure ''json: cannot unmarshal string into Go value of type map[string]interface {}'')"
| "json_Unmarshal float64 (Doc (JArray elems)) =
     Inl (Failure ''json: cannot unmarshal array into Go value of type map[string]interface {}'')"

definition json_Marshal :: "(string \<times> json) list \<Rightarrow> error + RawJSON" where
  "json_Marshal m = Inr (Doc (JObject m))"

definition setIdentityHelmValues ::
  "(rat \<Rightarrow> error + rat) \<Rightarrow> RawJSON option \<Rightarrow> json \<Rightarrow> error + RawJSON" where
  "setIdentityHelmValues float64 vals idRef =
     (case vals of
        None \<Rightarrow> Inl (Panic ''invalid memory address or nil pointer dereference'')
      | Some raw \<Rightarrow>
          (case json_Unmarshal float64 raw of
             Inl e \<Rightarrow> Inl (Failure (''error unmarshalling values: '' @ Error e))
           | Inr None \<Rightarrow> Inl (Panic ''assignment to entry in nil map'')
           | Inr (Some valuesJSON) \<Rightarrow>
               (case json_Marshal (AList.update ''clusterIdentity'' idRef valuesJSON) of
                  Inl e \<Rightarrow> Inl (Failure (''error marshalling values: '' @ Error e))
                | Inr valuesRaw \<Rightarrow> Inr valuesRaw)))"

subsection \<open>The helpers of Update\<close>

definition getSource :: "Env \<Rightarrow> CrossNamespaceSourceReference option \<Rightarrow> error option" where
  "getSource r ref =
     (case ref of
        None \<Rightarrow> Some (Failure ''helm chart source is not provided'')
      | Some cr \<Rightarrow> Get_HelmChart r (RefNamespace cr) (RefName cr))"

definition validateReleaseWithValues :: "Env \<Rightarrow> ManagedCluster \<Rightarrow> error option" where
  "validateReleaseWithValues r managedCluster =
     (case HelmValues r of
        Some e \<Rightarrow> Some e
      | None \<Rightarrow> Install_Run r)"

fun clusterConditionsLoop ::
  "ManagedCluster \<Rightarrow> bool \<Rightarrow> Condition list \<Rightarrow> ManagedCluster \<times> bool" where
  "clusterConditionsLoop managedCluster allConditionsComplete [] =
     (managedCluster, allConditionsComplete)"
| "clusterConditionsLoop managedCluster allConditionsComplete (metaCondition # rest) =
     clusterConditionsLoop
       (setCondition managedCluster
          (if Reason metaCondition = [] \<and> Status metaCondition = ConditionTrue
           then metaCondition\<lparr>Reason := ''Succeeded''\<rparr> else metaCondition))
       (if Status metaCondition \<noteq> ConditionTrue then False else allConditionsComplete)
       rest"

definition setStatusFromClusterStatus ::
  "Env \<Rightarrow> ManagedCluster \<Rightarrow> ManagedCluster \<times> bool \<times> error option" where
  "setStatusFromClusterStatus r managedCluster =
     (case GetResourceConditions r of
        Inl e \<Rightarrow>
          (if IsResourceNotFound e then (managedCluster, True, None)
           else (managedCluster, False, Some (Wrapped ''failed to get conditions: '' e)))
      | Inr resourceConditions \<Rightarrow>
          (case clusterConditionsLoop managedCluster True resourceConditions of
             (mc, allConditionsComplete) \<Rightarrow> (mc, \<not> allConditionsComplete, None)))"

definition updateServices :: "Env \<Rightarrow> ManagedCluster \<Rightarrow> Call list \<times> Result \<times> error option" where
  "updateServices r mc =
     (case helmChartOpts r of
        Some e \<Rightarrow> ([], NoResult, Some e)
      | None \<Rightarrow>
          (case ReconcileProfile r of
             Some e \<Rightarrow>
               ([CallReconcileProfile (Namespace mc) (Name mc)], NoResult,
                Some (Wrapped ''failed to reconcile Profile: '' e))
           | None \<Rightarrow>
               ([CallReconcileProfile (Namespace mc) (Name mc)],
                \<lparr>RequeueAfter = DefaultRequeueInterval\<rparr>, None)))"

text \<open>The type of the condition that \<^verbatim>\<open>fluxconditions.Get(hr, fluxmeta.ReadyCondition)\<close>
  looks up.\<close>

definition fluxmeta_ReadyCondition :: string where
  "fluxmeta_ReadyCondition = ''Ready''"

definition out :: "ManagedCluster \<Rightarrow> Call list \<Rightarrow> Result \<Rightarrow> error option \<Rightarrow> Out" where
  "out mc cs res e = \<lparr>obj = mc, calls = cs, result = res, err = e\<rparr>"

subsection \<open>Update\<close>

text \<open>The body of \<^verbatim>\<open>if !managedCluster.Spec.DryRun\<close>: the release upsert and what
  follows it.\<close>

definition UpdateRelease :: "Env \<Rightarrow> ManagedCluster \<Rightarrow> ClusterTemplate \<Rightarrow> Credential \<Rightarrow> Out" where
  "UpdateRelease r managedCluster template cred =
     (case setIdentityHelmValues (Float64 r) (Config managedCluster) (IdentityRef cred) of
        Inl e \<Rightarrow>
          out managedCluster [] NoResult
            (Some (case e of Panic m \<Rightarrow> Panic m
                   | _ \<Rightarrow> Failure (''error setting identity values: '' @ Error e)))
      | Inr helmValues \<Rightarrow>
          (let upsert = CallReconcileHelmRelease (Name managedCluster) (Namespace managedCluster)
                          helmValues (ChartRef template)
           in case ReconcileHelmRelease r of
                Inl e \<Rightarrow>
                  out (setCondition managedCluster
                         \<lparr>Type = HelmReleaseReadyCondition, Status = ConditionFalse,
                          Reason = FailedReason, Message = Error e\<rparr>)
                      [upsert] NoResult (Some e)
              | Inr hr \<Rightarrow>
                  (let mc1 = (case FindStatusCondition (ReleaseConditions hr) fluxmeta_ReadyCondition of
                                None \<Rightarrow> managedCluster
                              | Some hrReadyCondition \<Rightarrow>
                                  setCondition managedCluster
                                    \<lparr>Type = HelmReleaseReadyCondition,
                                     Status = Status hrReadyCondition,
                                     Reason = Reason hrReadyCondition,
                                     Message = Message hrReadyCondition\<rparr>)
                   in case setStatusFromClusterStatus r mc1 of
                        (mc2, requeue, Some e) \<Rightarrow>
                          (if requeue
                           then out mc2 [upsert] \<lparr>RequeueAfter = DefaultRequeueInterval\<rparr> (Some e)
                           else out mc2 [upsert] NoResult (Some e))
                      | (mc2, requeue, None) \<Rightarrow>
                          (if requeue
                           then out mc2 [upsert] \<lparr>RequeueAfter = DefaultRequeueInterval\<rparr> None
                           else if \<not> IsReady r hr
                           then out mc2 [upsert] \<lparr>RequeueAfter = DefaultRequeueInterval\<rparr> None
                           else
                             (case reconcileCredentialPropagation r mc2 of
                                (mc3, cs, Some e) \<Rightarrow> out mc3 (upsert # cs) NoResult (Some e)
                              | (mc3, cs, None) \<Rightarrow>
                                  (case updateServices r mc3 of
                                     (cs2, res, e) \<Rightarrow> out mc3 (upsert # cs @ cs2) res e))))))"

definition emptyTemplate :: ClusterTemplate where
  "emptyTemplate =
     \<lparr>Name = [], Namespace = [], Generation = 0, Finalizers = [], Valid = False,
      TemplateKubernetesVersion = [], ChartRef = None, Providers = []\<rparr>"

text \<open>\<^verbatim>\<open>Update\<close> from the fetch of the template to its last \<^verbatim>\<open>return\<close>; the
  template is returned too, for the deferred \<^verbatim>\<open>updateStatus\<close>.\<close>

definition UpdateBody :: "Env \<Rightarrow> ManagedCluster \<Rightarrow> ClusterTemplate \<times> Out" where
  "UpdateBody r managedCluster =
     (case Get_ClusterTemplate r (Namespace managedCluster) (Template managedCluster) of
        Inl e \<Rightarrow>
          (let errMsg = (if IsNotFound e then ''provided template is not found''
                         else ''failed to get provided template: '' @ Error e)
           in (emptyTemplate,
               out (setCondition managedCluster
                      \<lparr>Type = TemplateReadyCondition, Status = ConditionFalse,
                       Reason = FailedReason, Message = errMsg\<rparr>)
                   [] NoResult (Some e)))
      | Inr template \<Rightarrow>
          (if \<not> Valid template then
             (let errMsg = ''provided template is not marked as valid''
              in (template,
                  out (setCondition managedCluster
                         \<lparr>Type = TemplateReadyCondition, Status = ConditionFalse,
                          Reason = FailedReason, Message = errMsg\<rparr>)
                      [] NoResult (Some (Failure errMsg))))
           else
             (let mc1 = setCondition
                          (managedCluster\<lparr>KubernetesVersion := TemplateKubernetesVersion template\<rparr>)
                          \<lparr>Type = TemplateReadyCondition, Status = ConditionTrue,
                           Reason = SucceededReason, Message = ''Template is valid''\<rparr>
              in case getSource r (ChartRef template) of
                   Some e \<Rightarrow>
                     (template,
                      out (setCondition mc1
                             \<lparr>Type = HelmChartReadyCondition, Status = ConditionFalse,
                              Reason = FailedReason,
                              Message = ''failed to get helm chart source: '' @ Error e\<rparr>)
                          [] NoResult (Some e))
                 | None \<Rightarrow>
               (case DownloadChartFromArtifact r of
                   Some e \<Rightarrow>
                     (template,
                      out (setCondition mc1
                             \<lparr>Type = HelmChartReadyCondition, Status = ConditionFalse,
                              Reason = FailedReason,
                              Message = ''failed to download helm chart: '' @ Error e\<rparr>)
                          [] NoResult (Some e))
                 | None \<Rightarrow>
               (case Action_Init r of
                   Some e \<Rightarrow> (template, out mc1 [] NoResult (Some e))
                 | None \<Rightarrow>
               (case validateReleaseWithValues r mc1 of
                   Some e \<Rightarrow>
                     (template,
                      out (setCondition mc1
                             \<lparr>Type = HelmChartReadyCondition, Status = ConditionFalse,
                              Reason = FailedReason,
                              Message = ''failed to validate template with provided configuration: ''
                                        @ Error e\<rparr>)
                          [] NoResult (Some e))
                 | None \<Rightarrow>
               (let mc2 = setCondition mc1
                            \<lparr>Type = HelmChartReadyCondition, Status = ConditionTrue,
                             Reason = SucceededReason, Message = ''Helm chart is valid''\<rparr>
                in case Get_Credential r (Namespace mc2) (Credential mc2) of
                     Inl e \<Rightarrow>
                       (template,
                        out (setCondition mc2
                               \<lparr>Type = CredentialReadyCondition, Status = ConditionFalse,
                                Reason = FailedReason,
                                Message = ''Failed to get Credential: '' @ Error e\<rparr>)
                            [] NoResult (Some e))
                   | Inr cred \<Rightarrow>
                       (let mc3 = (if State cred \<noteq> CredentialReady
                                   then setCondition mc2
                                          \<lparr>Type = CredentialReadyCondition, Status = ConditionFalse,
                                           Reason = FailedReason,
                                           Message = ''Credential is not in Ready state''\<rparr>
                                   else mc2);
                            mc4 = setCondition mc3
                                    \<lparr>Type = CredentialReadyCondition, Status = ConditionTrue,
                                     Reason = SucceededReason, Message = ''Credential is Ready''\<rparr>
                        in if \<not> DryRun mc4 then (template, UpdateRelease r mc4 template cred)
                           else (template, out mc4 [] NoResult None)))))))))"

text \<open>
  \<^verbatim>\<open>Update\<close>: the finalizer step, \<^verbatim>\<open>InitConditions\<close>, the body, and the deferred
  \<^verbatim>\<open>err = errors.Join(err, r.updateStatus(...))\<close>, which runs on every return after
  the \<^verbatim>\<open>defer\<close> statement (and during a panic, which it does not stop).
\<close>

definition Update :: "Env \<Rightarrow> ManagedCluster \<Rightarrow> Out" where
  "Update r managedCluster =
     (case AddFinalizer managedCluster ManagedClusterFinalizer of
        (True, mc) \<Rightarrow>
          (case Client_Update r of
             Some e \<Rightarrow>
               out mc [CallUpdate mc] NoResult
                 (Some (Wrapped (''failed to update managedCluster ''
                                 @ key (Namespace mc) (Name mc) @ '': '') e))
           | None \<Rightarrow> out mc [CallUpdate mc] NoResult None)
      | (False, mc) \<Rightarrow>
          (let mc0 = (if Conditions mc = [] then mc\<lparr>Conditions := InitConditions r mc\<rparr> else mc)
           in case UpdateBody r mc0 of
                (template, body) \<Rightarrow>
                  (case updateStatus r (obj body) (Some template) of
                     (mc', cs, e) \<Rightarrow>
                       out mc' (calls body @ cs) (result body)
                         (case err body of
                            Some (Panic m) \<Rightarrow> Some (Panic m)
                          | _ \<Rightarrow> errors_Join (err body) e))))"

section \<open>The deletion path\<close>

definition gvkAWSCluster :: GroupVersionKind where
  "gvkAWSCluster =
     \<lparr>Group = ''infrastructure.cluster.x-k8s.io'', Version = ''v1beta2'', Kind = ''AWSCluster''\<rparr>"

definition gvkAzureCluster :: GroupVersionKind where
  "gvkAzureCluster =
     \<lparr>Group = ''infrastructure.cluster.x-k8s.io'', Version = ''v1beta1'', Kind = ''AzureCluster''\<rparr>"

definition gvkMachine :: GroupVersionKind where
  "gvkMachine = \<lparr>Group = ''cluster.x-k8s.io'', Version = ''v1beta1'', Kind = ''Machine''\<rparr>"

definition providerGVKs :: "string \<Rightarrow> GroupVersionKind option" where
  "providerGVKs = [''aws'' \<mapsto> gvkAWSCluster, ''azure'' \<mapsto> gvkAzureCluster]"

definition getCluster ::
  "Env \<Rightarrow> string \<Rightarrow> string \<Rightarrow> GroupVersionKind \<Rightarrow> Call list \<times> (error + ObjectMeta)" where
  "getCluster r namespace name gvk =
     (case List_Objects r gvk namespace name of
        Inl e \<Rightarrow> ([CallList gvk namespace name], Inl e)
      | Inr [] \<Rightarrow>
          ([CallList gvk namespace name],
           Inl (Failure (Kind gvk @ '' with name '' @ name @ '' was not found'')))
      | Inr (item # _) \<Rightarrow> ([CallList gvk namespace name], Inr item))"

definition objectsAvailable ::
  "Env \<Rightarrow> string \<Rightarrow> string \<Rightarrow> GroupVersionKind \<Rightarrow> Call list \<times> (error + bool)" where
  "objectsAvailable r namespace clusterName gvk =
     (case List_Objects r gvk namespace clusterName of
        Inl e \<Rightarrow> ([CallList gvk namespace clusterName], Inl e)
      | Inr items \<Rightarrow> ([CallList gvk namespace clusterName], Inr (items \<noteq> [])))"

definition removeClusterFinalizer :: "Env \<Rightarrow> ObjectMeta \<Rightarrow> Call list \<times> error option" where
  "removeClusterFinalizer r cluster =
     (case RemoveFinalizer cluster BlockingFinalizer of
        (True, patched) \<Rightarrow>
          (case Client_Patch r of
             Some e \<Rightarrow>
               ([CallPatch patched],
                Some (Wrapped (''failed to patch cluster ''
                               @ key (Namespace patched) (Name patched) @ '': '') e))
           | None \<Rightarrow> ([CallPatch patched], None))
      | (False, patched) \<Rightarrow> ([], None))"

fun releaseLoop :: "Env \<Rightarrow> string \<Rightarrow> string \<Rightarrow> string list \<Rightarrow> Call list \<times> error option" where
  "releaseLoop r namespace name [] = ([], None)"
| "releaseLoop r namespace name (provider # rest) =
     (case providerGVKs provider of
        None \<Rightarrow> releaseLoop r namespace name rest
      | Some gvk \<Rightarrow>
          (case getCluster r namespace name gvk of
             (c1, Inl e) \<Rightarrow>
               (if provider = ''aws'' \<and> IsNotFound e then (c1, None) else (c1, Some e))
           | (c1, Inr cluster) \<Rightarrow>
               (case objectsAvailable r namespace (Name cluster) gvkMachine of
                  (c2, Inl e) \<Rightarrow> (c1 @ c2, Some e)
                | (c2, Inr found) \<Rightarrow>
                    (if \<not> found then
                       (case removeClusterFinalizer r cluster of
                          (c3, e) \<Rightarrow> (c1 @ c2 @ c3, e))
                     else
                       (case releaseLoop r namespace name rest of
                          (cs, e) \<Rightarrow> (c1 @ c2 @ cs, e))))))"

definition releaseCluster :: "Env \<Rightarrow> string \<Rightarrow> string \<Rightarrow> string \<Rightarrow> Call list \<times> error option" where
  "releaseCluster r namespace name templateName =
     (case getInfraProvidersNames r namespace templateName of
        Inl e \<Rightarrow> ([], Some e)
      | Inr providers \<Rightarrow> releaseLoop r namespace name providers)"

definition Delete :: "Env \<Rightarrow> ManagedCluster \<Rightarrow> Out" where
  "Delete r managedCluster =
     (case Get_HelmRelease r (Namespace managedCluster) (Name managedCluster) of
        Inl e \<Rightarrow>
          (if IsNotFound e then
             (case RemoveFinalizer managedCluster ManagedClusterFinalizer of
                (True, mc) \<Rightarrow>
                  (case Client_Update r of
                     Some e' \<Rightarrow>
                       out mc [CallUpdate mc] NoResult
                         (Some (Wrapped (''failed to update managedCluster ''
                                         @ key (Namespace mc) (Name mc) @ '': '') e'))
                   | None \<Rightarrow> out mc [CallUpdate mc] NoResult None)
              | (False, mc) \<Rightarrow> out mc [] NoResult None)
           else out managedCluster [] NoResult (Some e))
      | Inr hr \<Rightarrow>
          (let c1 = CallDeleteHelmRelease (Name managedCluster) (Namespace managedCluster);
               c2 = CallDeleteProfile (Namespace managedCluster) (Name managedCluster)
           in case DeleteHelmRelease r of
                Some e \<Rightarrow> out managedCluster [c1] NoResult (Some e)
              | None \<Rightarrow>
                  (case DeleteProfile r of
                     Some e \<Rightarrow> out managedCluster [c1, c2] NoResult (Some e)
                   | None \<Rightarrow>
                       (case releaseCluster r (Namespace managedCluster) (Name managedCluster)
                               (Template managedCluster) of
                          (cs, Some e) \<Rightarrow> out managedCluster (c1 # c2 # cs) NoResult (Some e)
                        | (cs, None) \<Rightarrow>
                            out managedCluster (c1 # c2 # cs)
                              \<lparr>RequeueAfter = DefaultRequeueInterval\<rparr> None))))"


section \<open>Reference notions and sample inputs\<close>

text \<open>The conditions other than Ready that are False, and those that are Unknown, in
  the order of the list.\<close>

definition falseConditions :: "Condition list \<Rightarrow> Condition list" where
  "falseConditions cs = filter (\<lambda>c. Type c \<noteq> ReadyCondition \<and> Status c = ConditionFalse) cs"

definition unknownConditions :: "Condition list \<Rightarrow> Condition list" where
  "unknownConditions cs = filter (\<lambda>c. Type c \<noteq> ReadyCondition \<and> Status c = ConditionUnknown) cs"

text \<open>The names of the upgrades that the entries for template \<open>n\<close> declare, over all
  chains of a list.\<close>

definition declaredUpgrades :: "string \<Rightarrow> ClusterTemplateChain list \<Rightarrow> string set" where
  "declaredUpgrades n chainItems =
     (\<Union>chain \<in> set chainItems.
        \<Union>s \<in> set (filter (\<lambda>s. SupportedName s = n) (SupportedTemplates chain)).
          UpgradeName ` set (SupportedUpgrades s))"




definition isPatch :: "Call \<Rightarrow> bool" where
  "isPatch c = (case c of CallPatch p \<Rightarrow> True | _ \<Rightarrow> False)"

definition isList :: "Call \<Rightarrow> bool" where
  "isList c = (case c of CallList gvk ns v \<Rightarrow> True | _ \<Rightarrow> False)"

text \<open>A cluster \<open>ns/c1\<close> on Azure and vSphere, with everything it refers to in place
  and every collaborator succeeding. Of the numbers that occur in the samples,
  9007199254740993 (2^53 + 1) is not a \<^verbatim>\<open>float64\<close>: it is read as
  9007199254740992 and written back so; the others are small integers, which a
  \<^verbatim>\<open>float64\<close> holds exactly.\<close>

definition sampleTemplate :: ClusterTemplate where
  "sampleTemplate =
     \<lparr>Name = ''tpl'', Namespace = ''ns'', Generation = 1, Finalizers = [], Valid = True,
      TemplateKubernetesVersion = ''v1.30.4'',
      ChartRef = Some \<lparr>RefNamespace = ''ns'', RefName = ''chart''\<rparr>,
      Providers = [''infrastructure-azure'', ''infrastructure-vsphere'']\<rparr>"

definition sampleCredential :: Credential where
  "sampleCredential =
     \<lparr>Name = ''cred'', Namespace = ''ns'', Generation = 1, Finalizers = [],
      State = ''Ready'',
      IdentityRef = JObject [(''kind'', JString ''AzureClusterIdentity''), (''name'', JString ''id'')]\<rparr>"

definition sampleCluster :: ManagedCluster where
  "sampleCluster =
     \<lparr>Name = ''c1'', Namespace = ''ns'', Generation = 2,
      Finalizers = [''hmc.mirantis.com/managed-cluster''],
      Template = ''tpl'', Credential = ''cred'',
      Config = Some (Doc (JObject [(''location'', JString ''westeurope''),
                                   (''clusterIdentity'', JString ''mine'')])),
      DryRun = False, ObservedGeneration = 1, Conditions = [],
      KubernetesVersion = [], AvailableUpgrades = []\<rparr>"

definition sampleRelease :: HelmRelease where
  "sampleRelease =
     \<lparr>Name = ''c1'', Namespace = ''ns'', Generation = 1, Finalizers = [],
      ReleaseConditions = [\<lparr>Type = ''Ready'', Status = ConditionTrue,
                            Reason = ''ReconciliationSucceeded'', Message = ''Helm install succeeded''\<rparr>]\<rparr>"

definition sampleWorkload :: ObjectMeta where
  "sampleWorkload =
     \<lparr>Name = ''c1'', Namespace = ''ns'', Generation = 1,
      Finalizers = [''azurecluster.infrastructure.cluster.x-k8s.io'', ''hmc.mirantis.com/cleanup'']\<rparr>"

definition sampleMachine :: ObjectMeta where
  "sampleMachine = \<lparr>Name = ''c1-md-0'', Namespace = ''ns'', Generation = 1, Finalizers = []\<rparr>"

definition sampleChains :: "ClusterTemplateChain list" where
  "sampleChains =
     [\<lparr>Name = ''chain-a'', Namespace = ''ns'', Generation = 1, Finalizers = [],
       SupportedTemplates =
         [\<lparr>SupportedName = ''tpl'',
           SupportedUpgrades = [\<lparr>UpgradeName = ''tpl-2''\<rparr>, \<lparr>UpgradeName = ''tpl-3''\<rparr>]\<rparr>,
          \<lparr>SupportedName = ''other'', SupportedUpgrades = [\<lparr>UpgradeName = ''other-2''\<rparr>]\<rparr>]\<rparr>,
      \<lparr>Name = ''chain-b'', Namespace = ''ns'', Generation = 1, Finalizers = [],
       SupportedTemplates =
         [\<lparr>SupportedName = ''tpl'', SupportedUpgrades = [\<lparr>UpgradeName = ''tpl-3''\<rparr>]\<rparr>]\<rparr>]"

definition sampleEnv :: Env where
  "sampleEnv =
     \<lparr>InitConditions = (\<lambda>mc.
        [\<lparr>Type = ''TemplateReady'', Status = ConditionUnknown, Reason = ''Progressing'',
          Message = ''Template is not yet ready''\<rparr>,
         \<lparr>Type = ''HelmChartReady'', Status = ConditionUnknown, Reason = ''Progressing'',
          Message = ''HelmChart is not yet ready''\<rparr>,
         \<lparr>Type = ''Ready'', Status = ConditionUnknown, Reason = ''Progressing'',
          Message = ''ManagedCluster is not yet ready''\<rparr>]),
      HelmValues = None,
      Get_ClusterTemplate = (\<lambda>ns n. if ns = ''ns'' \<and> n = ''tpl'' then Inr sampleTemplate
                                      else Inl (NotFound ''clustertemplate not found'')),
      Get_HelmChart = (\<lambda>ns n. None),
      Get_Credential = (\<lambda>ns n. if ns = ''ns'' \<and> n = ''cred'' then Inr sampleCredential
                                   else Inl (NotFound ''credential not found'')),
      Get_Secret = (\<lambda>ns n. None),
      Get_HelmRelease = (\<lambda>ns n. Inr sampleRelease),
      List_ClusterTemplateChain = (\<lambda>ns n. Inr sampleChains),
      List_Objects = (\<lambda>gvk ns v.
        if Kind gvk = ''AzureCluster'' then Inr [sampleWorkload]
        else if Kind gvk = ''Machine'' then Inr [sampleMachine] else Inr []),
      Client_Update = None, Client_Patch = None, Status_Update = None,
      DownloadChartFromArtifact = None, Action_Init = None, Install_Run = None,
      ReconcileHelmRelease = Inr sampleRelease, DeleteHelmRelease = None,
      GetResourceConditions = Inr [], PropagateAzureSecrets = None,
      PropagateVSphereSecrets = None, helmChartOpts = None, ReconcileProfile = None,
      DeleteProfile = None,
      IsReady = (\<lambda>hr. hr = sampleRelease),
      Float64 = (\<lambda>q. if q = 9007199254740993 then Inr 9007199254740992 else Inr q)\<rparr>"

text \<open>Condition lists: one with two failures, one still pending, one settled, and one
  with a single failure.\<close>

definition mixedConditions :: "Condition list" where
  "mixedConditions =
     [\<lparr>Type = ''TemplateReady'', Status = ConditionFalse, Reason = ''Failed'',
       Message = ''provided template is not found''\<rparr>,
      \<lparr>Type = ''HelmChartReady'', Status = ConditionUnknown, Reason = ''Progressing'',
       Message = ''HelmChart is not yet ready''\<rparr>,
      \<lparr>Type = ''Ready'', Status = ConditionFalse, Reason = ''Failed'', Message = ''stale''\<rparr>,
      \<lparr>Type = ''CredentialReady'', Status = ConditionFalse, Reason = ''Failed'',
       Message = ''Failed to get Credential: timeout''\<rparr>]"

definition pendingConditions :: "Condition list" where
  "pendingConditions =
     [\<lparr>Type = ''TemplateReady'', Status = ConditionTrue, Reason = ''Succeeded'',
       Message = ''Template is valid''\<rparr>,
      \<lparr>Type = ''HelmChartReady'', Status = ConditionUnknown, Reason = ''Progressing'',
       Message = ''HelmChart is not yet ready''\<rparr>,
      \<lparr>Type = ''Ready'', Status = ConditionFalse, Reason = ''Failed'', Message = ''stale''\<rparr>]"

definition settledConditions :: "Condition list" where
  "settledConditions =
     [\<lparr>Type = ''TemplateReady'', Status = ConditionTrue, Reason = ''Succeeded'',
       Message = ''Template is valid''\<rparr>,
      \<lparr>Type = ''Ready'', Status = ConditionUnknown, Reason = ''Progressing'',
       Message = ''ManagedCluster is not yet ready''\<rparr>]"

definition failedConditions :: "Condition list" where
  "failedConditions =
     [\<lparr>Type = ''TemplateReady'', Status = ConditionFalse, Reason = ''Failed'',
       Message = ''provided template is not found''\<rparr>]"

text \<open>Environments that differ from the sample in one answer.\<close>

definition azureFailsEnv :: Env where
  "azureFailsEnv = sampleEnv\<lparr>PropagateAzureSecrets := Some (Failure ''401 unauthorized'')\<rparr>"

definition gcpAzureEnv :: Env where
  "gcpAzureEnv =
     sampleEnv\<lparr>Get_ClusterTemplate := \<lambda>ns n.
        Inr (sampleTemplate\<lparr>Providers := [''infrastructure-gcp'', ''infrastructure-azure'']\<rparr>)\<rparr>"

definition gcpEnv :: Env where
  "gcpEnv =
     sampleEnv\<lparr>Get_ClusterTemplate := \<lambda>ns n.
        Inr (sampleTemplate\<lparr>Providers := [''infrastructure-gcp'']\<rparr>)\<rparr>"

definition notReadyEnv :: Env where
  "notReadyEnv =
     sampleEnv\<lparr>Get_Credential := \<lambda>ns n.
        Inr (sampleCredential\<lparr>State := ''Cluster Identity not found''\<rparr>)\<rparr>"

text \<open>The object after the \<^verbatim>\<open>InitConditions\<close> step of \<^verbatim>\<open>Update\<close>.\<close>

definition withInitConditions :: "Env \<Rightarrow> ManagedCluster \<Rightarrow> ManagedCluster" where
  "withInitConditions r mc = (if Conditions mc = [] then mc\<lparr>Conditions := InitConditions r mc\<rparr> else mc)"







text \<open>The release is gone, the workload and its Machine are still there; and the
  release is there, the workload too, without a Machine.\<close>

definition releaseGoneEnv :: Env where
  "releaseGoneEnv = sampleEnv\<lparr>Get_HelmRelease := \<lambda>ns n. Inl (NotFound ''helmrelease not found'')\<rparr>"

definition noMachinesEnv :: Env where
  "noMachinesEnv =
     sampleEnv\<lparr>List_Objects := \<lambda>gvk ns v.
        if Kind gvk = ''AzureCluster'' then Inr [sampleWorkload] else Inr []\<rparr>"

section \<open>Properties of the status-persist step\<close>

lemmas condition_names =
  TemplateReadyCondition_def HelmChartReadyCondition_def HelmReleaseReadyCondition_def
  CredentialReadyCondition_def CredentialsPropagatedCondition_def ReadyCondition_def
  SucceededReason_def FailedReason_def ProgressingReason_def

lemma Find_Set_same: "FindStatusCondition (SetStatusCondition cs n) (Type n) = Some n"
  by (induction cs) auto


lemma statusLoop_eq:
  "statusLoop cs w e =
     (w @ concat (map (\<lambda>c. Message c @ ''. '') (unknownConditions cs)),
      e @ concat (map (\<lambda>c. Message c @ ''. '') (falseConditions cs)))"
  by (induction cs arbitrary: w e) (auto simp: unknownConditions_def falseConditions_def)

lemma concat_sep_Nil: "concat (map (\<lambda>c. Message c @ ''. '') xs) = [] \<longleftrightarrow> xs = []"
  by (cases xs) auto

lemma readyCondition_rule:
  "readyCondition cs =
     (if falseConditions cs \<noteq> [] then
        \<lparr>Type = ReadyCondition, Status = ConditionFalse, Reason = FailedReason,
         Message = concat (map (\<lambda>c. Message c @ ''. '') (falseConditions cs))\<rparr>
      else if unknownConditions cs \<noteq> [] then
        \<lparr>Type = ReadyCondition, Status = ConditionUnknown, Reason = ProgressingReason,
         Message = concat (map (\<lambda>c. Message c @ ''. '') (unknownConditions cs))\<rparr>
      else
        \<lparr>Type = ReadyCondition, Status = ConditionTrue, Reason = SucceededReason,
         Message = ''ManagedCluster is ready''\<rparr>)"
  by (simp add: readyCondition_def statusLoop_eq concat_sep_Nil del: concat_eq_Nil_conv)

lemma Type_readyCondition: "Type (readyCondition cs) = ReadyCondition"
  by (simp add: readyCondition_rule)

lemma updateStatus_Conditions:
  "Conditions (fst (updateStatus r mc t)) =
     SetStatusCondition (Conditions mc) (readyCondition (Conditions mc))"
  by (auto simp: updateStatus_def setAvailableUpgrades_def setCondition_def Let_def
           split: sum.splits option.splits)

lemma updateStatus_Ready:
  "FindStatusCondition (Conditions (fst (updateStatus r mc t))) ReadyCondition =
     Some (readyCondition (Conditions mc))"
  using Find_Set_same [of "Conditions mc" "readyCondition (Conditions mc)"]
  by (simp add: updateStatus_Conditions Type_readyCondition)

lemma updateStatus_calls:
  "fst (snd (updateStatus r mc t)) = [] \<or>
   fst (snd (updateStatus r mc t)) = [CallStatusUpdate (fst (updateStatus r mc t))]"
  by (auto simp: updateStatus_def Let_def split: sum.splits option.splits)

text \<open>
  C6, as the code has it. The Ready condition that \<^verbatim>\<open>updateStatus\<close> leaves on the
  object (and writes, when it reaches the status write) follows from the other
  conditions: if one of them is False, Ready is False with reason Failed; otherwise, if
  one is Unknown, Ready is Unknown with reason Progressing; otherwise Ready is True. The
  message is the concatenation of the messages of the False (or Unknown) conditions,
  each followed by a full stop and a space.
\<close>

theorem updateStatus_ready_rule:
  "(falseConditions (Conditions mc) \<noteq> [] \<longrightarrow>
      FindStatusCondition (Conditions (fst (updateStatus r mc t))) ReadyCondition =
        Some \<lparr>Type = ReadyCondition, Status = ConditionFalse, Reason = FailedReason,
              Message = concat (map (\<lambda>c. Message c @ ''. '') (falseConditions (Conditions mc)))\<rparr>) \<and>
   (falseConditions (Conditions mc) = [] \<and> unknownConditions (Conditions mc) \<noteq> [] \<longrightarrow>
      FindStatusCondition (Conditions (fst (updateStatus r mc t))) ReadyCondition =
        Some \<lparr>Type = ReadyCondition, Status = ConditionUnknown, Reason = ProgressingReason,
              Message = concat (map (\<lambda>c. Message c @ ''. '') (unknownConditions (Conditions mc)))\<rparr>) \<and>
   (falseConditions (Conditions mc) = [] \<and> unknownConditions (Conditions mc) = [] \<longrightarrow>
      FindStatusCondition (Conditions (fst (updateStatus r mc t))) ReadyCondition =
        Some \<lparr>Type = ReadyCondition, Status = ConditionTrue, Reason = SucceededReason,
              Message = ''ManagedCluster is ready''\<rparr>) \<and>
   (\<forall>m. CallStatusUpdate m \<in> set (fst (snd (updateStatus r mc t))) \<longrightarrow>
      m = fst (updateStatus r mc t))"
proof -
  have "\<forall>m. CallStatusUpdate m \<in> set (fst (snd (updateStatus r mc t))) \<longrightarrow>
          m = fst (updateStatus r mc t)"
    using updateStatus_calls [of r mc t] by auto
  then show ?thesis
    by (simp add: updateStatus_Ready readyCondition_rule)
qed

lemma sample_persist:
  "Status_Update sampleEnv = None"
  by (simp add: sampleEnv_def)

lemma updateStatus_None:
  "Status_Update r = None \<Longrightarrow>
   fst (snd (updateStatus r mc None)) = [CallStatusUpdate (fst (updateStatus r mc None))]"
  by (simp add: updateStatus_def setAvailableUpgrades_def Let_def)

theorem updateStatus_ready_rule_witness:
  "FindStatusCondition
     (Conditions (fst (updateStatus sampleEnv (sampleCluster\<lparr>Conditions := mixedConditions\<rparr>) None)))
     ReadyCondition =
     Some \<lparr>Type = ''Ready'', Status = ConditionFalse, Reason = ''Failed'',
           Message = ''provided template is not found. Failed to get Credential: timeout. ''\<rparr> \<and>
   FindStatusCondition
     (Conditions (fst (updateStatus sampleEnv (sampleCluster\<lparr>Conditions := pendingConditions\<rparr>) None)))
     ReadyCondition =
     Some \<lparr>Type = ''Ready'', Status = ConditionUnknown, Reason = ''Progressing'',
           Message = ''HelmChart is not yet ready. ''\<rparr> \<and>
   FindStatusCondition
     (Conditions (fst (updateStatus sampleEnv (sampleCluster\<lparr>Conditions := settledConditions\<rparr>) None)))
     ReadyCondition =
     Some \<lparr>Type = ''Ready'', Status = ConditionTrue, Reason = ''Succeeded'',
           Message = ''ManagedCluster is ready''\<rparr> \<and>
   CallStatusUpdate (fst (updateStatus sampleEnv (sampleCluster\<lparr>Conditions := settledConditions\<rparr>) None))
     \<in> set (fst (snd (updateStatus sampleEnv (sampleCluster\<lparr>Conditions := settledConditions\<rparr>) None)))"
proof -
  have f: "falseConditions mixedConditions =
             [\<lparr>Type = ''TemplateReady'', Status = ConditionFalse, Reason = ''Failed'',
               Message = ''provided template is not found''\<rparr>,
              \<lparr>Type = ''CredentialReady'', Status = ConditionFalse, Reason = ''Failed'',
               Message = ''Failed to get Credential: timeout''\<rparr>]"
    by (simp add: falseConditions_def mixedConditions_def ReadyCondition_def)
  have p: "falseConditions pendingConditions = [] \<and>
           unknownConditions pendingConditions =
             [\<lparr>Type = ''HelmChartReady'', Status = ConditionUnknown, Reason = ''Progressing'',
               Message = ''HelmChart is not yet ready''\<rparr>]"
    by (simp add: falseConditions_def unknownConditions_def pendingConditions_def ReadyCondition_def)
  have s: "falseConditions settledConditions = [] \<and> unknownConditions settledConditions = []"
    by (simp add: falseConditions_def unknownConditions_def settledConditions_def ReadyCondition_def)
  have c: "CallStatusUpdate (fst (updateStatus sampleEnv (sampleCluster\<lparr>Conditions := settledConditions\<rparr>) None))
     \<in> set (fst (snd (updateStatus sampleEnv (sampleCluster\<lparr>Conditions := settledConditions\<rparr>) None)))"
    by (simp add: updateStatus_None [OF sample_persist])
  have m: "FindStatusCondition
     (Conditions (fst (updateStatus sampleEnv (sampleCluster\<lparr>Conditions := mixedConditions\<rparr>) None)))
     ReadyCondition =
     Some \<lparr>Type = ''Ready'', Status = ConditionFalse, Reason = ''Failed'',
           Message = ''provided template is not found. Failed to get Credential: timeout. ''\<rparr>"
    using updateStatus_ready_rule [of "sampleCluster\<lparr>Conditions := mixedConditions\<rparr>" sampleEnv None] f
    by (simp add: condition_names)
  have q: "FindStatusCondition
     (Conditions (fst (updateStatus sampleEnv (sampleCluster\<lparr>Conditions := pendingConditions\<rparr>) None)))
     ReadyCondition =
     Some \<lparr>Type = ''Ready'', Status = ConditionUnknown, Reason = ''Progressing'',
           Message = ''HelmChart is not yet ready. ''\<rparr>"
    using updateStatus_ready_rule [of "sampleCluster\<lparr>Conditions := pendingConditions\<rparr>" sampleEnv None] p
    by (simp add: condition_names)
  have t: "FindStatusCondition
     (Conditions (fst (updateStatus sampleEnv (sampleCluster\<lparr>Conditions := settledConditions\<rparr>) None)))
     ReadyCondition =
     Some \<lparr>Type = ''Ready'', Status = ConditionTrue, Reason = ''Succeeded'',
           Message = ''ManagedCluster is ready''\<rparr>"
    using updateStatus_ready_rule [of "sampleCluster\<lparr>Conditions := settledConditions\<rparr>" sampleEnv None] s
    by (simp add: condition_names)
  show ?thesis using m q t c by blast
qed
text \<open>
  C6, as the claim words it: the message of Ready would be the concatenation of the
  messages of the False conditions. With the single False condition "provided template is
  not found", the message of Ready is that text followed by a full stop and a space.
\<close>

theorem ready_message_counterexample:
  "map_option Message
     (FindStatusCondition
        (Conditions (fst (updateStatus sampleEnv (sampleCluster\<lparr>Conditions := failedConditions\<rparr>) None)))
        ReadyCondition)
     = Some ''provided template is not found. '' \<and>
   falseConditions failedConditions \<noteq> [] \<and>
   concat (map Message (falseConditions failedConditions)) = ''provided template is not found''"
proof -
  have f: "falseConditions failedConditions = failedConditions"
    by (simp add: falseConditions_def failedConditions_def ReadyCondition_def)
  have "FindStatusCondition
        (Conditions (fst (updateStatus sampleEnv (sampleCluster\<lparr>Conditions := failedConditions\<rparr>) None)))
        ReadyCondition = Some (readyCondition failedConditions)"
    by (simp add: updateStatus_Ready)
  then show ?thesis
    by (simp add: readyCondition_rule f) (simp add: failedConditions_def)
qed

section \<open>Properties of the available-upgrades resolver\<close>


lemma set_update_subset: "set (AList.update k v al) \<subseteq> insert (k, v) (set al)"
  by (induction al) auto

lemma addUpgrades_keys:
  "fst ` set (addUpgrades m us) = fst ` set m \<union> UpgradeName ` set us"
  by (induction us arbitrary: m) (auto simp: dom_update)

lemma addUpgrades_distinct:
  "distinct (map fst m) \<Longrightarrow> distinct (map fst (addUpgrades m us))"
  by (induction us arbitrary: m) (auto simp: distinct_update)

lemma addUpgrades_keyed:
  "\<forall>(k, v) \<in> set m. UpgradeName v = k \<Longrightarrow> \<forall>(k, v) \<in> set (addUpgrades m us). UpgradeName v = k"
proof (induction us arbitrary: m)
  case Nil
  then show ?case by simp
next
  case (Cons u us)
  have "\<forall>(k, v) \<in> set (AList.update (UpgradeName u) u m). UpgradeName v = k"
    using Cons.prems set_update_subset [of "UpgradeName u" u m] by auto
  then show ?case using Cons.IH by simp
qed

lemma addSupported_keys:
  "fst ` set (addSupported n m ss) =
     fst ` set m \<union> (\<Union>s \<in> set (filter (\<lambda>s. SupportedName s = n) ss). UpgradeName ` set (SupportedUpgrades s))"
  by (induction ss arbitrary: m) (auto simp: addUpgrades_keys)

lemma addSupported_distinct:
  "distinct (map fst m) \<Longrightarrow> distinct (map fst (addSupported n m ss))"
  by (induction ss arbitrary: m) (auto simp: addUpgrades_distinct)

lemma addSupported_keyed:
  "\<forall>(k, v) \<in> set m. UpgradeName v = k \<Longrightarrow> \<forall>(k, v) \<in> set (addSupported n m ss). UpgradeName v = k"
proof (induction ss arbitrary: m)
  case Nil
  then show ?case by simp
next
  case (Cons s ss)
  show ?case
  proof (cases "SupportedName s = n")
    case True
    then show ?thesis using Cons.IH [OF addUpgrades_keyed [OF Cons.prems]] by simp
  next
    case False
    then show ?thesis using Cons.IH [OF Cons.prems] by simp
  qed
qed

lemma addChains_keys:
  "fst ` set (addChains n m cs) = fst ` set m \<union> declaredUpgrades n cs"
  by (induction cs arbitrary: m) (auto simp: addSupported_keys declaredUpgrades_def)

lemma addChains_distinct:
  "distinct (map fst m) \<Longrightarrow> distinct (map fst (addChains n m cs))"
  by (induction cs arbitrary: m) (auto simp: addSupported_distinct)

lemma addChains_keyed:
  "\<forall>(k, v) \<in> set m. UpgradeName v = k \<Longrightarrow> \<forall>(k, v) \<in> set (addChains n m cs). UpgradeName v = k"
proof (induction cs arbitrary: m)
  case Nil
  then show ?case by simp
next
  case (Cons c cs)
  show ?case using Cons.IH [OF addSupported_keyed [OF Cons.prems]] by simp
qed

lemma availableUpgrades_keys: "availableUpgrades n cs = map fst (addChains n [] cs)"
  unfolding availableUpgrades_def using addChains_keyed [of "[]" n cs] by auto

lemma set_availableUpgrades: "set (availableUpgrades n cs) = declaredUpgrades n cs"
  using addChains_keys [of n "[]" cs] by (simp add: availableUpgrades_keys)

lemma distinct_availableUpgrades: "distinct (availableUpgrades n cs)"
  using addChains_distinct [of "[]" n cs] by (simp add: availableUpgrades_keys)

lemma declaredUpgrades_mset: "mset cs = mset cs' \<Longrightarrow> declaredUpgrades n cs = declaredUpgrades n cs'"
  unfolding declaredUpgrades_def by (metis set_mset_mset)

lemma declaredUpgrades_empty:
  "\<forall>c \<in> set cs. \<forall>s \<in> set (SupportedTemplates c). SupportedName s \<noteq> n \<Longrightarrow> declaredUpgrades n cs = {}"
  by (auto simp: declaredUpgrades_def)

text \<open>
  C8. When the chains are listed, \<^verbatim>\<open>setAvailableUpgrades\<close> returns no error and
  stores a list without duplicates whose elements are exactly the names of the upgrades
  declared by the entries that match the template, over all chains listed; listing the
  same chains in another order gives the same set; and when no entry matches, the list
  is empty.
\<close>

theorem setAvailableUpgrades_resolves:
  assumes "List_ClusterTemplateChain r (Namespace t) (Name t) = Inr cs"
  shows "\<exists>mc'. setAvailableUpgrades r mc (Some t) = Inr mc' \<and>
           set (AvailableUpgrades mc') = declaredUpgrades (Name t) cs \<and>
           distinct (AvailableUpgrades mc') \<and>
           (\<forall>r' cs'. List_ClusterTemplateChain r' (Namespace t) (Name t) = Inr cs' \<and>
                      mset cs' = mset cs \<longrightarrow>
              (\<exists>mc''. setAvailableUpgrades r' mc (Some t) = Inr mc'' \<and>
                       set (AvailableUpgrades mc'') = set (AvailableUpgrades mc'))) \<and>
           ((\<forall>c \<in> set cs. \<forall>s \<in> set (SupportedTemplates c). SupportedName s \<noteq> Name t) \<longrightarrow>
              AvailableUpgrades mc' = [])"
proof -
  let ?mc = "mc\<lparr>AvailableUpgrades := availableUpgrades (Name t) cs\<rparr>"
  have run: "setAvailableUpgrades r mc (Some t) = Inr ?mc"
    using assms by (simp add: setAvailableUpgrades_def)
  have names: "set (AvailableUpgrades ?mc) = declaredUpgrades (Name t) cs"
    by (simp add: set_availableUpgrades)
  have dist: "distinct (AvailableUpgrades ?mc)"
    by (simp add: distinct_availableUpgrades)
  have perm: "\<exists>mc''. setAvailableUpgrades r' mc (Some t) = Inr mc'' \<and>
                     set (AvailableUpgrades mc'') = set (AvailableUpgrades ?mc)"
    if "List_ClusterTemplateChain r' (Namespace t) (Name t) = Inr cs'" "mset cs' = mset cs"
    for r' cs'
    using that declaredUpgrades_mset [of cs' cs "Name t"]
    by (simp add: setAvailableUpgrades_def set_availableUpgrades)
  have none: "AvailableUpgrades ?mc = []"
    if "\<forall>c \<in> set cs. \<forall>s \<in> set (SupportedTemplates c). SupportedName s \<noteq> Name t"
    using declaredUpgrades_empty [OF that] set_availableUpgrades [of "Name t" cs] by simp
  show ?thesis
    using run names dist perm none by blast
qed

theorem setAvailableUpgrades_resolves_witness:
  "(\<exists>mc'. setAvailableUpgrades sampleEnv sampleCluster (Some sampleTemplate) = Inr mc' \<and>
          set (AvailableUpgrades mc') = {''tpl-2'', ''tpl-3''} \<and>
          distinct (AvailableUpgrades mc') \<and>
          (\<exists>mc''. setAvailableUpgrades
                     (sampleEnv\<lparr>List_ClusterTemplateChain := \<lambda>ns n. Inr (rev sampleChains)\<rparr>)
                     sampleCluster (Some sampleTemplate) = Inr mc'' \<and>
                   set (AvailableUpgrades mc'') = set (AvailableUpgrades mc'))) \<and>
   (\<exists>mc'. setAvailableUpgrades sampleEnv sampleCluster (Some (sampleTemplate\<lparr>Name := ''lonely''\<rparr>)) = Inr mc' \<and>
          AvailableUpgrades mc' = [])"
proof -
  have l: "List_ClusterTemplateChain sampleEnv (Namespace sampleTemplate) (Name sampleTemplate) = Inr sampleChains"
    by (simp add: sampleEnv_def)
  have l': "List_ClusterTemplateChain (sampleEnv\<lparr>List_ClusterTemplateChain := \<lambda>ns n. Inr (rev sampleChains)\<rparr>)
              (Namespace sampleTemplate) (Name sampleTemplate) = Inr (rev sampleChains) \<and>
            mset (rev sampleChains) = mset sampleChains"
    by simp
  have d: "declaredUpgrades (Name sampleTemplate) sampleChains = {''tpl-2'', ''tpl-3''}"
    by (auto simp: declaredUpgrades_def sampleChains_def sampleTemplate_def)
  have l2: "List_ClusterTemplateChain sampleEnv (Namespace (sampleTemplate\<lparr>Name := ''lonely''\<rparr>))
              (Name (sampleTemplate\<lparr>Name := ''lonely''\<rparr>)) = Inr sampleChains"
    by (simp add: sampleEnv_def)
  have n: "\<forall>c \<in> set sampleChains. \<forall>s \<in> set (SupportedTemplates c).
             SupportedName s \<noteq> Name (sampleTemplate\<lparr>Name := ''lonely''\<rparr>)"
    by (simp add: sampleChains_def)
  have a: "\<exists>mc'. setAvailableUpgrades sampleEnv sampleCluster (Some sampleTemplate) = Inr mc' \<and>
          set (AvailableUpgrades mc') = {''tpl-2'', ''tpl-3''} \<and>
          distinct (AvailableUpgrades mc') \<and>
          (\<exists>mc''. setAvailableUpgrades
                     (sampleEnv\<lparr>List_ClusterTemplateChain := \<lambda>ns n. Inr (rev sampleChains)\<rparr>)
                     sampleCluster (Some sampleTemplate) = Inr mc'' \<and>
                   set (AvailableUpgrades mc'') = set (AvailableUpgrades mc'))"
    using setAvailableUpgrades_resolves [OF l, of sampleCluster] l' d by metis
  have b: "\<exists>mc'. setAvailableUpgrades sampleEnv sampleCluster (Some (sampleTemplate\<lparr>Name := ''lonely''\<rparr>)) = Inr mc' \<and>
          AvailableUpgrades mc' = []"
    using setAvailableUpgrades_resolves [OF l2, of sampleCluster] n by blast
  show ?thesis using a b by blast
qed

section \<open>Properties of credential propagation\<close>

text \<open>
  C5. In a propagation pass over the providers azure and vsphere, in this order, that
  reaches the providers (the kubeconfig secret is read) and in which the Azure routine
  fails with \<open>e\<close>: the only routine invoked is the Azure one, the pass returns an
  error, and the condition CredentialsPropagated is False with reason Failed and the
  message of the Azure failure.
\<close>

theorem propagation_fail_fast:
  assumes "getInfraProvidersNames r (Namespace mc) (Template mc) = Inr [''azure'', ''vsphere'']"
    and "Get_Secret r (Namespace mc) (Name mc @ ''-kubeconfig'') = None"
    and "PropagateAzureSecrets r = Some e"
  shows "CallPropagateVSphereSecrets \<notin> set (fst (snd (reconcileCredentialPropagation r mc))) \<and>
         fst (snd (reconcileCredentialPropagation r mc)) = [CallPropagateAzureSecrets] \<and>
         snd (snd (reconcileCredentialPropagation r mc)) =
           Some (Failure (''failed to create Azure CCM credentials: '' @ Error e)) \<and>
         FindStatusCondition (Conditions (fst (reconcileCredentialPropagation r mc)))
             CredentialsPropagatedCondition =
           Some \<lparr>Type = CredentialsPropagatedCondition, Status = ConditionFalse,
                 Reason = FailedReason,
                 Message = ''failed to create Azure CCM credentials: '' @ Error e\<rparr>"
proof -
  let ?c = "\<lparr>Type = CredentialsPropagatedCondition, Status = ConditionFalse,
             Reason = FailedReason,
             Message = ''failed to create Azure CCM credentials: '' @ Error e\<rparr>"
  have run: "reconcileCredentialPropagation r mc =
               (setCondition mc ?c, [CallPropagateAzureSecrets],
                Some (Failure (''failed to create Azure CCM credentials: '' @ Error e)))"
    using assms by (simp add: reconcileCredentialPropagation_def Let_def)
  have "FindStatusCondition (Conditions (setCondition mc ?c)) CredentialsPropagatedCondition = Some ?c"
    using Find_Set_same [of "Conditions mc" ?c] by (simp add: setCondition_def)
  then show ?thesis by (simp add: run)
qed

lemma sample_providers:
  "Get_ClusterTemplate r ns n = Inr sampleTemplate \<Longrightarrow>
   getInfraProvidersNames r ns n = Inr [''azure'', ''vsphere'']"
  by (simp add: getInfraProvidersNames_def sampleTemplate_def infraPrefix_def)

theorem propagation_fail_fast_witness:
  "fst (snd (reconcileCredentialPropagation azureFailsEnv sampleCluster)) = [CallPropagateAzureSecrets] \<and>
   snd (snd (reconcileCredentialPropagation azureFailsEnv sampleCluster)) =
     Some (Failure ''failed to create Azure CCM credentials: 401 unauthorized'') \<and>
   FindStatusCondition (Conditions (fst (reconcileCredentialPropagation azureFailsEnv sampleCluster)))
       ''CredentialsPropagated'' =
     Some \<lparr>Type = ''CredentialsPropagated'', Status = ConditionFalse, Reason = ''Failed'',
           Message = ''failed to create Azure CCM credentials: 401 unauthorized''\<rparr>"
proof -
  have p: "getInfraProvidersNames azureFailsEnv (Namespace sampleCluster) (Template sampleCluster)
             = Inr [''azure'', ''vsphere'']"
    by (rule sample_providers) (simp add: azureFailsEnv_def sampleEnv_def sampleCluster_def)
  have s: "Get_Secret azureFailsEnv (Namespace sampleCluster) (Name sampleCluster @ ''-kubeconfig'') = None"
    by (simp add: azureFailsEnv_def sampleEnv_def)
  have a: "PropagateAzureSecrets azureFailsEnv = Some (Failure ''401 unauthorized'')"
    by (simp add: azureFailsEnv_def)
  show ?thesis
    using propagation_fail_fast [OF p s a] by (simp add: condition_names)
qed

text \<open>
  C4 at a template that requires the providers gcp and azure: the pass sets the
  condition to False for gcp, goes on to the Azure routine, which overwrites the
  condition with True, and returns no error. With gcp alone the condition stays False
  with the message for the unsupported provider, and the pass still returns no error.
\<close>

theorem unsupported_provider_continues:
  "fst (snd (reconcileCredentialPropagation gcpAzureEnv sampleCluster)) = [CallPropagateAzureSecrets] \<and>
   snd (snd (reconcileCredentialPropagation gcpAzureEnv sampleCluster)) = None \<and>
   FindStatusCondition (Conditions (fst (reconcileCredentialPropagation gcpAzureEnv sampleCluster)))
       CredentialsPropagatedCondition =
     Some \<lparr>Type = ''CredentialsPropagated'', Status = ConditionTrue, Reason = ''Succeeded'',
           Message = ''Azure CCM credentials created''\<rparr> \<and>
   snd (snd (reconcileCredentialPropagation gcpEnv sampleCluster)) = None \<and>
   FindStatusCondition (Conditions (fst (reconcileCredentialPropagation gcpEnv sampleCluster)))
       CredentialsPropagatedCondition =
     Some \<lparr>Type = ''CredentialsPropagated'', Status = ConditionFalse, Reason = ''Failed'',
           Message = ''unsupported infrastructure provider gcp''\<rparr>"
  by (simp add: reconcileCredentialPropagation_def getInfraProvidersNames_def gcpAzureEnv_def
        gcpEnv_def sampleEnv_def sampleTemplate_def sampleCluster_def infraPrefix_def
        setCondition_def condition_names)
section \<open>Properties of the update path\<close>

lemmas update_defs =
  Update_def UpdateBody_def UpdateRelease_def AddFinalizer_def ManagedClusterFinalizer_def
  getSource_def validateReleaseWithValues_def setCondition_def CredentialReady_def
  setIdentityHelmValues_def json_Marshal_def setStatusFromClusterStatus_def
  fluxmeta_ReadyCondition_def reconcileCredentialPropagation_def
  getInfraProvidersNames_def infraPrefix_def updateServices_def updateStatus_def
  setAvailableUpgrades_def readyCondition_def out_def Let_def DefaultRequeueInterval_def
  NoResult_def availableUpgrades_def key_def

lemmas sample_defs =
  sampleEnv_def sampleCluster_def sampleTemplate_def sampleCredential_def sampleRelease_def
  sampleChains_def sampleWorkload_def sampleMachine_def

text \<open>
  C1 at a cluster that carries its finalizer, is not a dry run, and whose credential
  exists in the state "Cluster Identity not found": the pass leaves CredentialReady True,
  makes the release upsert as its first call, and returns no error.
\<close>

theorem credential_not_ready_proceeds:
  "Get_Credential notReadyEnv ''ns'' ''cred'' =
     Inr (sampleCredential\<lparr>State := ''Cluster Identity not found''\<rparr>) \<and>
   ''Cluster Identity not found'' \<noteq> CredentialReady \<and>
   FindStatusCondition (Conditions (obj (Update notReadyEnv sampleCluster))) CredentialReadyCondition =
     Some \<lparr>Type = ''CredentialReady'', Status = ConditionTrue, Reason = ''Succeeded'',
           Message = ''Credential is Ready''\<rparr> \<and>
   take 1 (calls (Update notReadyEnv sampleCluster)) =
     [CallReconcileHelmRelease ''c1'' ''ns''
        (Doc (JObject [(''location'', JString ''westeurope''),
                       (''clusterIdentity'',
                        JObject [(''kind'', JString ''AzureClusterIdentity''), (''name'', JString ''id'')])]))
        (Some \<lparr>RefNamespace = ''ns'', RefName = ''chart''\<rparr>)] \<and>
   err (Update notReadyEnv sampleCluster) = None"
  by (simp add: update_defs notReadyEnv_def sample_defs condition_names)



lemma withInitConditions_fields [simp]:
  "Namespace (withInitConditions r mc) = Namespace mc"
  "Name (withInitConditions r mc) = Name mc"
  "Template (withInitConditions r mc) = Template mc"
  "Credential (withInitConditions r mc) = Credential mc"
  "Config (withInitConditions r mc) = Config mc"
  "DryRun (withInitConditions r mc) = DryRun mc"
  by (simp_all add: withInitConditions_def)

















section \<open>The values handed to the release upsert\<close>






lemma setCondition_fields [simp]:
  "Name (setCondition mc c) = Name mc"
  "Namespace (setCondition mc c) = Namespace mc"
  "Template (setCondition mc c) = Template mc"
  "Credential (setCondition mc c) = Credential mc"
  "Config (setCondition mc c) = Config mc"
  "DryRun (setCondition mc c) = DryRun mc"
  "Finalizers (setCondition mc c) = Finalizers mc"
  by (simp_all add: setCondition_def)











section \<open>Properties of the deletion path\<close>

lemmas delete_defs =
  Delete_def releaseCluster_def getInfraProvidersNames_def infraPrefix_def getCluster_def
  objectsAvailable_def removeClusterFinalizer_def RemoveFinalizer_def providerGVKs_def
  gvkAWSCluster_def gvkAzureCluster_def gvkMachine_def BlockingFinalizer_def
  ManagedClusterFinalizer_def out_def Let_def DefaultRequeueInterval_def NoResult_def key_def

lemma Delete_found_eq:
  assumes "Get_HelmRelease r (Namespace mc) (Name mc) = Inr hr"
  shows "Delete r mc =
     (case DeleteHelmRelease r of
        Some e \<Rightarrow> out mc [CallDeleteHelmRelease (Name mc) (Namespace mc)] NoResult (Some e)
      | None \<Rightarrow>
          (case DeleteProfile r of
             Some e \<Rightarrow>
               out mc [CallDeleteHelmRelease (Name mc) (Namespace mc),
                       CallDeleteProfile (Namespace mc) (Name mc)] NoResult (Some e)
           | None \<Rightarrow>
               out mc (CallDeleteHelmRelease (Name mc) (Namespace mc) #
                       CallDeleteProfile (Namespace mc) (Name mc) #
                       fst (releaseCluster r (Namespace mc) (Name mc) (Template mc)))
                 (if snd (releaseCluster r (Namespace mc) (Name mc) (Template mc)) = None
                  then \<lparr>RequeueAfter = DefaultRequeueInterval\<rparr> else NoResult)
                 (snd (releaseCluster r (Namespace mc) (Name mc) (Template mc)))))"
  using assms
  by (cases "releaseCluster r (Namespace mc) (Name mc) (Template mc)")
     (auto simp: Delete_def Let_def split: option.splits)

lemma length_filter_neq:
  "length (filter (\<lambda>g. g \<noteq> f) xs) \<noteq> length xs \<longleftrightarrow> f \<in> set xs"
proof (cases "f \<in> set xs")
  case True
  then show ?thesis using length_filter_less [of f xs "\<lambda>g. g \<noteq> f"] by auto
next
  case False
  then have "filter (\<lambda>g. g \<noteq> f) xs = xs" by (auto simp: filter_id_conv)
  then show ?thesis using False by simp
qed

lemma getCluster_calls: "fst (getCluster r ns n gvk) = [CallList gvk ns n]"
  by (simp add: getCluster_def split: sum.splits list.splits)

lemma objectsAvailable_result:
  "objectsAvailable r ns cn gvk =
     ([CallList gvk ns cn],
      case List_Objects r gvk ns cn of Inl e \<Rightarrow> Inl e | Inr items \<Rightarrow> Inr (items \<noteq> []))"
  by (simp add: objectsAvailable_def split: sum.splits)

lemma removeClusterFinalizer_calls:
  "fst (removeClusterFinalizer r cl) =
     (if BlockingFinalizer \<in> set (Finalizers cl)
      then [CallPatch (cl\<lparr>Finalizers := filter (\<lambda>g. g \<noteq> BlockingFinalizer) (Finalizers cl)\<rparr>)]
      else [])"
  by (simp add: removeClusterFinalizer_def RemoveFinalizer_def Let_def length_filter_neq
           split: option.splits)

lemma releaseLoop_calls:
  "c \<in> set (fst (releaseLoop r ns n ps)) \<Longrightarrow>
   isList c \<or>
   (\<exists>w. c = CallPatch (w\<lparr>Finalizers := filter (\<lambda>g. g \<noteq> BlockingFinalizer) (Finalizers w)\<rparr>) \<and>
        BlockingFinalizer \<in> set (Finalizers w) \<and>
        List_Objects r gvkMachine ns (Name w) = Inr [])"
proof (induction ps)
  case Nil
  then show ?case by simp
next
  case (Cons provider rest)
  show ?case
  proof (cases "providerGVKs provider")
    case None
    then show ?thesis using Cons by simp
  next
    case (Some gvk)
    obtain c1 cl where gc: "getCluster r ns n gvk = (c1, cl)"
      by (cases "getCluster r ns n gvk") auto
    have c1: "c1 = [CallList gvk ns n]"
      using getCluster_calls [of r ns n gvk] gc by simp
    show ?thesis
    proof (cases cl)
      case (Inl e)
      then show ?thesis using Cons.prems Some gc c1 by (auto simp: isList_def split: if_splits)
    next
      case (Inr cluster)
      show ?thesis
      proof (cases "List_Objects r gvkMachine ns (Name cluster)")
        case (Inl e)
        then show ?thesis
          using Cons.prems Some gc c1 Inr by (auto simp: objectsAvailable_result isList_def)
      next
        case items: (Inr items)
        show ?thesis
        proof (cases "items = []")
          case True
          obtain c3 e3 where rf: "removeClusterFinalizer r cluster = (c3, e3)"
            by (cases "removeClusterFinalizer r cluster") auto
          have c3: "c3 = (if BlockingFinalizer \<in> set (Finalizers cluster)
                          then [CallPatch (cluster\<lparr>Finalizers :=
                                  filter (\<lambda>g. g \<noteq> BlockingFinalizer) (Finalizers cluster)\<rparr>)]
                          else [])"
            using removeClusterFinalizer_calls [of r cluster] rf by simp
          have "c \<in> set (c1 @ [CallList gvkMachine ns (Name cluster)] @ c3)"
            using Cons.prems Some gc Inr items True rf by (simp add: objectsAvailable_result)
          then show ?thesis
            using c1 c3 items True by (auto simp: isList_def split: if_splits)
        next
          case False
          obtain cs e where rl: "releaseLoop r ns n rest = (cs, e)"
            by (cases "releaseLoop r ns n rest") auto
          have "c \<in> set (c1 @ [CallList gvkMachine ns (Name cluster)] @ cs)"
            using Cons.prems Some gc Inr items False rl by (simp add: objectsAvailable_result)
          then show ?thesis
            using c1 Cons.IH rl by (auto simp: isList_def)
        qed
      qed
    qed
  qed
qed

lemma releaseCluster_calls:
  "c \<in> set (fst (releaseCluster r ns n t)) \<Longrightarrow>
   isList c \<or>
   (\<exists>w. c = CallPatch (w\<lparr>Finalizers := filter (\<lambda>g. g \<noteq> BlockingFinalizer) (Finalizers w)\<rparr>) \<and>
        BlockingFinalizer \<in> set (Finalizers w) \<and>
        List_Objects r gvkMachine ns (Name w) = Inr [])"
  using releaseLoop_calls [of c r ns n]
  by (cases "getInfraProvidersNames r ns t") (auto simp: releaseCluster_def)

lemma releaseCluster_no_update:
  "c \<in> set (fst (releaseCluster r ns n t)) \<Longrightarrow> isList c \<or> isPatch c"
  using releaseCluster_calls [of c r ns n t] by (auto simp: isPatch_def)




lemma Delete_missing_eq:
  assumes "Get_HelmRelease r (Namespace mc) (Name mc) = Inl e"
  shows "obj (Delete r mc) =
           (if IsNotFound e
            then mc\<lparr>Finalizers := filter (\<lambda>g. g \<noteq> ManagedClusterFinalizer) (Finalizers mc)\<rparr>
            else mc) \<and>
         (\<forall>c \<in> set (calls (Delete r mc)). \<not> isList c \<and> \<not> isPatch c)"
  using assms
  by (auto simp: Delete_def RemoveFinalizer_def out_def Let_def isList_def isPatch_def
           split: option.splits bool.splits)

lemma Delete_not_found_eq:
  assumes "Get_HelmRelease r (Namespace mc) (Name mc) = Inl e" and "IsNotFound e"
    and "ManagedClusterFinalizer \<in> set (Finalizers mc)"
  shows "Delete r mc =
           out (mc\<lparr>Finalizers := filter (\<lambda>g. g \<noteq> ManagedClusterFinalizer) (Finalizers mc)\<rparr>)
             [CallUpdate (mc\<lparr>Finalizers := filter (\<lambda>g. g \<noteq> ManagedClusterFinalizer) (Finalizers mc)\<rparr>)]
             NoResult
             (case Client_Update r of
                Some e' \<Rightarrow>
                  Some (Wrapped (''failed to update managedCluster ''
                                 @ key (Namespace mc) (Name mc) @ '': '') e')
              | None \<Rightarrow> None)"
  using assms length_filter_neq [of ManagedClusterFinalizer "Finalizers mc"]
  by (simp add: Delete_def RemoveFinalizer_def Let_def split: option.splits)

lemma Delete_other_error_eq:
  assumes "Get_HelmRelease r (Namespace mc) (Name mc) = Inl e" and "\<not> IsNotFound e"
  shows "Delete r mc = out mc [] NoResult (Some e)"
  using assms by (simp add: Delete_def)

lemma Delete_found_no_update:
  assumes "Get_HelmRelease r (Namespace mc) (Name mc) = Inr hr"
  shows "obj (Delete r mc) = mc \<and> (\<forall>c \<in> set (calls (Delete r mc)). \<forall>m. c \<noteq> CallUpdate m)"
proof -
  have nu: "\<forall>m. c \<noteq> CallUpdate m"
    if "c \<in> set (fst (releaseCluster r (Namespace mc) (Name mc) (Template mc)))" for c
    using releaseCluster_no_update [OF that] by (auto simp: isList_def isPatch_def)
  show ?thesis
    using nu by (auto simp: Delete_found_eq [OF assms] out_def split: option.splits)
qed

text \<open>
  C3, as the code has it. In a deletion pass on an object that carries its own
  finalizer, the pass writes the object without that finalizer (its only call, a
  \<^verbatim>\<open>Client.Update\<close>) exactly when the lookup of the HelmRelease reports that it is
  not found; the pass returns no error when the write succeeds and the error of the
  write when it fails. In every other pass the object keeps its finalizer and is not
  written. A pass in which the lookup fails neither lists nor patches a provider
  workload. The blocking finalizer of a workload is patched away only in a pass that
  finds the HelmRelease and whose requests to delete the release and the profile
  succeed, and only for a workload that carries it and for which no Machine is listed.
\<close>

theorem own_finalizer_rule:
  "(ManagedClusterFinalizer \<in> set (Finalizers mc) \<longrightarrow>
      (ManagedClusterFinalizer \<notin> set (Finalizers (obj (Delete r mc))) \<longleftrightarrow>
       (\<exists>e. Get_HelmRelease r (Namespace mc) (Name mc) = Inl e \<and> IsNotFound e)) \<and>
      ((\<exists>e. Get_HelmRelease r (Namespace mc) (Name mc) = Inl e \<and> IsNotFound e) \<longrightarrow>
         calls (Delete r mc) =
           [CallUpdate (mc\<lparr>Finalizers :=
                            filter (\<lambda>g. g \<noteq> ManagedClusterFinalizer) (Finalizers mc)\<rparr>)] \<and>
         obj (Delete r mc) =
           mc\<lparr>Finalizers := filter (\<lambda>g. g \<noteq> ManagedClusterFinalizer) (Finalizers mc)\<rparr> \<and>
         result (Delete r mc) = NoResult \<and>
         (Client_Update r = None \<longrightarrow> err (Delete r mc) = None) \<and>
         (Client_Update r \<noteq> None \<longrightarrow> err (Delete r mc) \<noteq> None)) \<and>
      (\<not> (\<exists>e. Get_HelmRelease r (Namespace mc) (Name mc) = Inl e \<and> IsNotFound e) \<longrightarrow>
         obj (Delete r mc) = mc \<and>
         (\<forall>c \<in> set (calls (Delete r mc)). \<forall>m. c \<noteq> CallUpdate m))) \<and>
   ((\<exists>e. Get_HelmRelease r (Namespace mc) (Name mc) = Inl e) \<longrightarrow>
      (\<forall>c \<in> set (calls (Delete r mc)). \<not> isList c \<and> \<not> isPatch c)) \<and>
   (\<forall>p. CallPatch p \<in> set (calls (Delete r mc)) \<longrightarrow>
      (\<exists>hr. Get_HelmRelease r (Namespace mc) (Name mc) = Inr hr) \<and>
      DeleteHelmRelease r = None \<and> DeleteProfile r = None \<and>
      (\<exists>w. p = w\<lparr>Finalizers := filter (\<lambda>g. g \<noteq> BlockingFinalizer) (Finalizers w)\<rparr> \<and>
           BlockingFinalizer \<in> set (Finalizers w) \<and>
           List_Objects r gvkMachine (Namespace mc) (Name w) = Inr []))"
proof (cases "Get_HelmRelease r (Namespace mc) (Name mc)")
  case (Inl e)
  have np: "\<forall>p. CallPatch p \<notin> set (calls (Delete r mc))"
    using Delete_missing_eq [OF Inl] by (auto simp: isPatch_def)
  have nl: "\<forall>c \<in> set (calls (Delete r mc)). \<not> isList c \<and> \<not> isPatch c"
    using Delete_missing_eq [OF Inl] by blast
  show ?thesis
  proof (cases "IsNotFound e")
    case True
    have gone: "calls (Delete r mc) =
           [CallUpdate (mc\<lparr>Finalizers :=
                            filter (\<lambda>g. g \<noteq> ManagedClusterFinalizer) (Finalizers mc)\<rparr>)] \<and>
         obj (Delete r mc) =
           mc\<lparr>Finalizers := filter (\<lambda>g. g \<noteq> ManagedClusterFinalizer) (Finalizers mc)\<rparr> \<and>
         result (Delete r mc) = NoResult \<and>
         (Client_Update r = None \<longrightarrow> err (Delete r mc) = None) \<and>
         (Client_Update r \<noteq> None \<longrightarrow> err (Delete r mc) \<noteq> None)"
      if "ManagedClusterFinalizer \<in> set (Finalizers mc)"
      by (auto simp: Delete_not_found_eq [OF Inl True that] out_def)
    have removed: "ManagedClusterFinalizer \<notin> set (Finalizers (obj (Delete r mc)))"
      if "ManagedClusterFinalizer \<in> set (Finalizers mc)"
      using gone [OF that] by simp
    show ?thesis
      using Inl True gone removed np nl by auto
  next
    case False
    have kept: "obj (Delete r mc) = mc \<and> calls (Delete r mc) = []"
      by (simp add: Delete_other_error_eq [OF Inl False] out_def)
    show ?thesis
      using Inl False kept by auto
  qed
next
  case (Inr hr)
  have keep: "obj (Delete r mc) = mc \<and> (\<forall>c \<in> set (calls (Delete r mc)). \<forall>m. c \<noteq> CallUpdate m)"
    using Inr by (rule Delete_found_no_update)
  have patch: "DeleteHelmRelease r = None \<and> DeleteProfile r = None \<and>
      (\<exists>w. p = w\<lparr>Finalizers := filter (\<lambda>g. g \<noteq> BlockingFinalizer) (Finalizers w)\<rparr> \<and>
           BlockingFinalizer \<in> set (Finalizers w) \<and>
           List_Objects r gvkMachine (Namespace mc) (Name w) = Inr [])"
    if p: "CallPatch p \<in> set (calls (Delete r mc))" for p
  proof -
    have d: "DeleteHelmRelease r = None"
      using p by (cases "DeleteHelmRelease r") (auto simp: Delete_found_eq [OF Inr] out_def)
    have f: "DeleteProfile r = None"
      using p d by (cases "DeleteProfile r") (auto simp: Delete_found_eq [OF Inr] out_def)
    have "CallPatch p \<in> set (fst (releaseCluster r (Namespace mc) (Name mc) (Template mc)))"
      using p d f by (simp add: Delete_found_eq [OF Inr] out_def)
    then show ?thesis
      using releaseCluster_calls [of "CallPatch p" r "Namespace mc" "Name mc" "Template mc"] d f
      by (auto simp: isList_def)
  qed
  show ?thesis
    using keep patch Inr by auto
qed

theorem own_finalizer_rule_witness:
  "calls (Delete releaseGoneEnv sampleCluster) = [CallUpdate (sampleCluster\<lparr>Finalizers := []\<rparr>)] \<and>
   obj (Delete releaseGoneEnv sampleCluster) = sampleCluster\<lparr>Finalizers := []\<rparr> \<and>
   err (Delete releaseGoneEnv sampleCluster) = None \<and>
   err (Delete (releaseGoneEnv\<lparr>Client_Update := Some (Failure ''conflict'')\<rparr>) sampleCluster) \<noteq> None \<and>
   ManagedClusterFinalizer \<notin> set (Finalizers (obj (Delete releaseGoneEnv sampleCluster))) \<and>
   list_all (\<lambda>c. \<not> isList c \<and> \<not> isPatch c) (calls (Delete releaseGoneEnv sampleCluster)) \<and>
   ManagedClusterFinalizer \<in> set (Finalizers (obj (Delete sampleEnv sampleCluster))) \<and>
   list_all (\<lambda>c. \<forall>m. c \<noteq> CallUpdate m) (calls (Delete sampleEnv sampleCluster)) \<and>
   CallPatch (sampleWorkload\<lparr>Finalizers := [''azurecluster.infrastructure.cluster.x-k8s.io'']\<rparr>)
     \<in> set (calls (Delete noMachinesEnv sampleCluster)) \<and>
   Get_HelmRelease noMachinesEnv ''ns'' ''c1'' = Inr sampleRelease \<and>
   DeleteHelmRelease noMachinesEnv = None \<and> DeleteProfile noMachinesEnv = None"
proof -
  have f: "ManagedClusterFinalizer \<in> set (Finalizers sampleCluster)"
    by (simp add: sampleCluster_def ManagedClusterFinalizer_def)
  have fs: "filter (\<lambda>g. g \<noteq> ManagedClusterFinalizer) (Finalizers sampleCluster) = []"
    by (simp add: sampleCluster_def ManagedClusterFinalizer_def)
  have g: "Get_HelmRelease releaseGoneEnv (Namespace sampleCluster) (Name sampleCluster) =
             Inl (NotFound ''helmrelease not found'') \<and> IsNotFound (NotFound ''helmrelease not found'')"
    by (simp add: releaseGoneEnv_def)
  have g': "Get_HelmRelease (releaseGoneEnv\<lparr>Client_Update := Some (Failure ''conflict'')\<rparr>)
              (Namespace sampleCluster) (Name sampleCluster) =
             Inl (NotFound ''helmrelease not found'') \<and> IsNotFound (NotFound ''helmrelease not found'')"
    by (simp add: releaseGoneEnv_def)
  have u: "Client_Update releaseGoneEnv = None"
    "Client_Update (releaseGoneEnv\<lparr>Client_Update := Some (Failure ''conflict'')\<rparr>) \<noteq> None"
    by (simp_all add: releaseGoneEnv_def sampleEnv_def)
  have a: "calls (Delete releaseGoneEnv sampleCluster) = [CallUpdate (sampleCluster\<lparr>Finalizers := []\<rparr>)] \<and>
           obj (Delete releaseGoneEnv sampleCluster) = sampleCluster\<lparr>Finalizers := []\<rparr> \<and>
           err (Delete releaseGoneEnv sampleCluster) = None \<and>
           ManagedClusterFinalizer \<notin> set (Finalizers (obj (Delete releaseGoneEnv sampleCluster))) \<and>
           (\<forall>c \<in> set (calls (Delete releaseGoneEnv sampleCluster)). \<not> isList c \<and> \<not> isPatch c)"
    using own_finalizer_rule [of sampleCluster releaseGoneEnv] f g u(1) fs by auto
  have a': "err (Delete (releaseGoneEnv\<lparr>Client_Update := Some (Failure ''conflict'')\<rparr>) sampleCluster) \<noteq> None"
    using own_finalizer_rule [of sampleCluster "releaseGoneEnv\<lparr>Client_Update := Some (Failure ''conflict'')\<rparr>"]
      f g' u(2) by blast
  have h: "Get_HelmRelease sampleEnv (Namespace sampleCluster) (Name sampleCluster) = Inr sampleRelease"
    by (simp add: sampleEnv_def)
  have b: "ManagedClusterFinalizer \<in> set (Finalizers (obj (Delete sampleEnv sampleCluster))) \<and>
           (\<forall>c \<in> set (calls (Delete sampleEnv sampleCluster)). \<forall>m. c \<noteq> CallUpdate m)"
    using own_finalizer_rule [of sampleCluster sampleEnv] f h by auto
  have p: "CallPatch (sampleWorkload\<lparr>Finalizers := [''azurecluster.infrastructure.cluster.x-k8s.io'']\<rparr>)
     \<in> set (calls (Delete noMachinesEnv sampleCluster))"
    by (simp add: delete_defs noMachinesEnv_def sample_defs)
  have c: "(\<exists>hr. Get_HelmRelease noMachinesEnv (Namespace sampleCluster) (Name sampleCluster) = Inr hr) \<and>
      DeleteHelmRelease noMachinesEnv = None \<and> DeleteProfile noMachinesEnv = None"
    using own_finalizer_rule [of sampleCluster noMachinesEnv] p by blast
  have n: "Get_HelmRelease noMachinesEnv ''ns'' ''c1'' = Inr sampleRelease"
    by (simp add: noMachinesEnv_def sampleEnv_def)
  show ?thesis
    using a a' b p c n by (simp add: list_all_iff)
qed

text \<open>
  C3, as the claim words it, on two passes for one cluster. In the first the release is
  still there and so is a Machine of the workload: nothing is patched. In the second the
  release is gone, while the workload still carries the blocking finalizer and still has
  its Machine: the pass removes the object's own finalizer and writes the object, and
  patches nothing.
\<close>

theorem own_finalizer_counterexample:
  "list_all (\<lambda>c. \<not> isPatch c) (calls (Delete sampleEnv sampleCluster)) \<and>
   obj (Delete sampleEnv sampleCluster) = sampleCluster \<and>
   List_Objects releaseGoneEnv gvkAzureCluster ''ns'' ''c1'' = Inr [sampleWorkload] \<and>
   BlockingFinalizer \<in> set (Finalizers sampleWorkload) \<and>
   List_Objects releaseGoneEnv gvkMachine ''ns'' ''c1'' = Inr [sampleMachine] \<and>
   ManagedClusterFinalizer \<in> set (Finalizers sampleCluster) \<and>
   Finalizers (obj (Delete releaseGoneEnv sampleCluster)) = [] \<and>
   calls (Delete releaseGoneEnv sampleCluster) = [CallUpdate (sampleCluster\<lparr>Finalizers := []\<rparr>)] \<and>
   err (Delete releaseGoneEnv sampleCluster) = None"
  by (simp add: delete_defs releaseGoneEnv_def sample_defs isPatch_def)

end
